theory Spec2Isabelle
  imports Complex_Main
begin

section \<open>Python values, exceptions and text\<close>

text \<open>
  The two programs of the repository, \<^verbatim>\<open>app.py\<close> and \<^verbatim>\<open>st2.py\<close>, are variants of one
  stock dashboard. Both are glue code over a data provider, pandas, stockstats and
  plotly. An exception is a value of \<open>py_error\<close>; a call that may raise returns
  \<open>py_error + 'a\<close>, with \<open>Inl\<close> the exception. The prices of a dataframe are read as
  reals, and the rounding of the arithmetic on them is not modelled; the one product
  whose digits are printed, in the buy confirmation, is the binary64 product.
\<close>

datatype py_error =
    FileNotFoundError
  | IndexError
  | UnboundLocalError
  | TypeError
  | LibraryError string

type_synonym 'a result = "py_error + 'a"

definition bind_r :: "'a result \<Rightarrow> ('a \<Rightarrow> 'b result) \<Rightarrow> 'b result" where
  "bind_r m f = (case m of Inl e \<Rightarrow> Inl e | Inr x \<Rightarrow> f x)"

text \<open>What \<^verbatim>\<open>pickle.load\<close> may put into the ticker list: an entry need not be a string.\<close>

datatype pyval = PStr string | PInt int | PNone

definition digit :: "nat \<Rightarrow> char" where
  "digit n = ''0123456789'' ! n"

function dec :: "nat \<Rightarrow> string" where
  "dec n = (if n < 10 then [digit n] else dec (n div 10) @ [digit (n mod 10)])"
  by pat_completeness auto
termination
  by (relation "measure (\<lambda>n. n)") auto

declare dec.simps [simp del]

text \<open>Python's \<^verbatim>\<open>str(v)\<close>.\<close>

fun py_str :: "pyval \<Rightarrow> string" where
  "py_str (PStr s) = s"
| "py_str (PInt i) = (if i < 0 then CHR ''-'' # dec (nat (- i)) else dec (nat i))"
| "py_str PNone = ''None''"

fun is_str :: "pyval \<Rightarrow> bool" where
  "is_str (PStr s) = True"
| "is_str v = False"

text \<open>
  Python's \<^verbatim>\<open>xs[i]\<close> on a sequence: a negative index counts from the end, an index
  outside the sequence raises IndexError.
\<close>

definition py_index :: "'a list \<Rightarrow> int \<Rightarrow> 'a result" where
  "py_index xs i =
     (if 0 \<le> i \<and> i < int (length xs) then Inr (xs ! nat i)
      else if i < 0 \<and> - i \<le> int (length xs) then Inr (xs ! nat (int (length xs) + i))
      else Inl IndexError)"

text \<open>Python's truth value of an optional click counter: None and 0 are false.\<close>

fun truthy :: "int option \<Rightarrow> bool" where
  "truthy None = False"
| "truthy (Some k) = (k \<noteq> 0)"

text \<open>
  The format \<^verbatim>\<open>:.2f\<close>: the nearest hundredth, a tie going to the even one, printed
  with exactly two digits after the point.
\<close>

definition round_half_even :: "real \<Rightarrow> int" where
  "round_half_even x =
     (let f = \<lfloor>x\<rfloor>; d = x - of_int f
      in if d < 1 / 2 then f
         else if 1 / 2 < d then f + 1
         else if even f then f else f + 1)"

definition fmt2 :: "real \<Rightarrow> string" where
  "fmt2 x =
     (let c = nat (round_half_even (\<bar>x\<bar> * 100))
      in (if x < 0 then ''-'' else '''') @ dec (c div 100) @ ''.'' @
         [digit (c mod 100 div 10), digit (c mod 10)])"

section \<open>Binary64 arithmetic\<close>

text \<open>
  Where a price is multiplied and then printed (the buy confirmation of st2.py), the
  product is the binary64 product of Python, not the product of the reals: the string
  printed depends on it. A float is a finite real (a binary64 value), negative zero,
  an infinity or NaN.
\<close>

datatype pyfloat = Finite real | NegZero | PosInf | NegInf | NaN

definition pow2 :: "int \<Rightarrow> real" where
  "pow2 e = (if 0 \<le> e then 2 ^ nat e else 1 / 2 ^ nat (- e))"

text \<open>The binary exponent of a positive real: \<open>pow2 (ilog2 x) \<le> x < pow2 (ilog2 x + 1)\<close>.\<close>

function ilog2 :: "real \<Rightarrow> int" where
  "ilog2 x =
     (if x \<le> 0 then 0
      else if 2 \<le> x then ilog2 (x / 2) + 1
      else if x < 1 then ilog2 (x * 2) - 1
      else 0)"
  by pat_completeness auto
termination
proof (relation "measure (\<lambda>x. nat \<bar>\<lfloor>log 2 x\<rfloor>\<bar>)")
  show "wf (measure (\<lambda>x. nat \<bar>\<lfloor>log 2 x\<rfloor>\<bar>))"
    by simp
next
  fix x :: real
  assume "\<not> x \<le> 0" "2 \<le> x"
  then have "log 2 (x / 2) = log 2 x - 1" "1 \<le> log 2 x"
    by (simp_all add: log_divide le_log_iff)
  then have "\<lfloor>log 2 (x / 2)\<rfloor> = \<lfloor>log 2 x\<rfloor> - 1" "1 \<le> \<lfloor>log 2 x\<rfloor>"
    by (simp_all add: le_floor_iff)
  then have "nat \<bar>\<lfloor>log 2 (x / 2)\<rfloor>\<bar> < nat \<bar>\<lfloor>log 2 x\<rfloor>\<bar>"
    by linarith
  then show "(x / 2, x) \<in> measure (\<lambda>x. nat \<bar>\<lfloor>log 2 x\<rfloor>\<bar>)"
    by simp
next
  fix x :: real
  assume "\<not> x \<le> 0" "\<not> 2 \<le> x" "x < 1"
  then have "log 2 (x * 2) = log 2 x + 1" "log 2 x < 0"
    by (simp_all add: log_mult)
  then have "\<lfloor>log 2 (x * 2)\<rfloor> = \<lfloor>log 2 x\<rfloor> + 1" "\<lfloor>log 2 x\<rfloor> < 0"
    by (simp_all add: floor_less_iff)
  then have "nat \<bar>\<lfloor>log 2 (x * 2)\<rfloor>\<bar> < nat \<bar>\<lfloor>log 2 x\<rfloor>\<bar>"
    by linarith
  then show "(x * 2, x) \<in> measure (\<lambda>x. nat \<bar>\<lfloor>log 2 x\<rfloor>\<bar>)"
    by simp
qed

declare ilog2.simps [simp del]

text \<open>
  Rounding the size of a real to binary64, to the nearest value and to the even one of
  two nearest: 53 significant bits from the exponent -1022 on, steps of \<open>pow2 (- 1074)\<close>
  below.
\<close>

definition rounded :: "real \<Rightarrow> real" where
  "rounded x =
     (let e = max (ilog2 \<bar>x\<bar>) (- 1022);
          q = pow2 (e - 52)
      in of_int (round_half_even (\<bar>x\<bar> / q)) * q)"

text \<open>The binary64 value of a real: what is too large becomes an infinity, and the sign stays.\<close>

definition round64 :: "real \<Rightarrow> pyfloat" where
  "round64 x =
     (if pow2 1024 \<le> rounded x then (if x < 0 then NegInf else PosInf)
      else if x < 0 then (if rounded x = 0 then NegZero else Finite (- rounded x))
      else Finite (rounded x))"

text \<open>The literal \<^verbatim>\<open>1.1\<close>: the binary64 value nearest to 11/10.\<close>

definition float_1_1 :: real where
  "float_1_1 = 2476979795053773 / 2 ^ 51"

text \<open>A float times a positive binary64 value \<open>y\<close>.\<close>

fun float_mul :: "pyfloat \<Rightarrow> real \<Rightarrow> pyfloat" where
  "float_mul (Finite x) y = round64 (x * y)"
| "float_mul NegZero y = NegZero"
| "float_mul PosInf y = PosInf"
| "float_mul NegInf y = NegInf"
| "float_mul NaN y = NaN"

text \<open>The format \<^verbatim>\<open>:.2f\<close> of a float.\<close>

fun fmt2f :: "pyfloat \<Rightarrow> string" where
  "fmt2f (Finite x) = fmt2 x"
| "fmt2f NegZero = ''-0.00''"
| "fmt2f PosInf = ''inf''"
| "fmt2f NegInf = ''-inf''"
| "fmt2f NaN = ''nan''"

section \<open>Price data\<close>

text \<open>
  A fetched dataframe is a list of rows, oldest first: the index is the date column,
  and every column has the length of the frame. \<open>None\<close> in a computed column is NaN.
\<close>

type_synonym date = int

record row =
  date :: date
  open_px :: real
  high :: real
  low :: real
  close :: real
  volume :: real

type_synonym dataframe = "row list"

type_synonym cell = "real option"

definition df_index :: "dataframe \<Rightarrow> date list" where
  "df_index df = map date df"

definition df_open :: "dataframe \<Rightarrow> real list" where
  "df_open df = map open_px df"

definition df_high :: "dataframe \<Rightarrow> real list" where
  "df_high df = map high df"

definition df_low :: "dataframe \<Rightarrow> real list" where
  "df_low df = map low df"

definition df_close :: "dataframe \<Rightarrow> real list" where
  "df_close df = map close df"

text \<open>
  pandas' \<^verbatim>\<open>s.rolling(w).mean()\<close>: NaN until \<open>w\<close> values are there, then the mean of
  the last \<open>w\<close>.
\<close>

definition rolling_mean :: "nat \<Rightarrow> real list \<Rightarrow> cell list" where
  "rolling_mean w xs =
     map (\<lambda>i. if Suc i < w then None
              else Some (sum_list (take w (drop (Suc i - w) xs)) / real w))
       [0..<length xs]"

text \<open>
  pandas' \<^verbatim>\<open>s.ewm(span=n).mean()\<close> (adjust=True): the weighted mean of all values so
  far, the weight falling by \<open>1 - 2 / (n + 1)\<close> per step back.
\<close>

fun ewm_from :: "real \<Rightarrow> real \<Rightarrow> real \<Rightarrow> real list \<Rightarrow> cell list" where
  "ewm_from a num den [] = []"
| "ewm_from a num den (x # xs) =
     Some ((x + (1 - a) * num) / (1 + (1 - a) * den))
       # ewm_from a (x + (1 - a) * num) (1 + (1 - a) * den) xs"

definition ewm_mean :: "nat \<Rightarrow> real list \<Rightarrow> cell list" where
  "ewm_mean n xs = ewm_from (2 / (real n + 1)) 0 0 xs"

section \<open>Figures\<close>

text \<open>
  A plotly trace, by its data and name; the presentation attributes of a scatter
  trace (fill, mode, text, marker, line) are kept as a list of pairs.
\<close>

datatype trace =
    Scatter "date list" "cell list" string "(string \<times> string) list"
  | Candlestick "date list" "real list" "real list" "real list" "real list" string
  | Ohlc "date list" "real list" "real list" "real list" "real list"
  | Indicator string real string real string

record button =
  b_count :: "nat option"
  b_label :: "string option"
  b_step :: string
  b_stepmode :: "string option"

record xaxes =
  rangeslider_visible :: bool
  activecolor :: string
  bgcolor :: string
  buttons :: "button list"

record layout =
  l_height :: nat
  l_title :: "string option"
  l_showlegend :: "bool option"
  plot_bgcolor :: string
  paper_bgcolor :: string
  font_color :: string
  l_xaxes :: "xaxes option"

text \<open>A callback output: the empty dict \<^verbatim>\<open>{}\<close>, or a \<^verbatim>\<open>go.Figure\<close>.\<close>

datatype figure = EmptyDict | Figure "trace list" layout

fun fig_traces :: "figure \<Rightarrow> trace list" where
  "fig_traces EmptyDict = []"
| "fig_traces (Figure ts l) = ts"

section \<open>The process: libraries, globals and effects\<close>

text \<open>
  The libraries the callbacks call are parameters: the data provider
  (\<^verbatim>\<open>yf.download\<close> in app.py, \<^verbatim>\<open>yf.get_data\<close> in st2.py, both with a daily interval),
  the live price (\<^verbatim>\<open>yf.get_live_price\<close>) and the indicator columns of stockstats
  (\<^verbatim>\<open>Sdf(df)[name]\<close>). Each may raise.
\<close>

record libs =
  download :: "string \<Rightarrow> date \<Rightarrow> date \<Rightarrow> dataframe result"
  get_live_price :: "string \<Rightarrow> pyfloat result"
  stock_get :: "dataframe \<Rightarrow> string \<Rightarrow> (cell list) result"

datatype out = Text string | Head dataframe

text \<open>
  The state of a running process: the module global \<open>ticker_list\<close> and the effects
  so far (how often tickers.pickle was opened, the calls of the data provider and of
  the live price, the lines printed).
\<close>

record process =
  ticker_list :: "pyval list"
  pickle_opens :: nat
  fetch_log :: "(string \<times> date \<times> date) list"
  price_log :: "string list"
  stdout :: "out list"

text \<open>
  The provider call of both variants, the last five years up to \<open>now\<close>, the date the
  clock shows when the callback runs. The call is recorded.
\<close>

definition fetch :: "libs \<Rightarrow> date \<Rightarrow> string \<Rightarrow> process \<Rightarrow> dataframe result \<times> process" where
  "fetch L now ticker w =
     (let start_date = now - 5 * 365; end_date = now
      in (download L ticker start_date end_date,
          w\<lparr>fetch_log := fetch_log w @ [(ticker, start_date, end_date)]\<rparr>))"

definition print :: "out \<Rightarrow> process \<Rightarrow> process" where
  "print x w = w\<lparr>stdout := stdout w @ [x]\<rparr>"

text \<open>The dropdowns and the plot button, as the layout sets them at startup.\<close>

record ui =
  stock_options :: "(string \<times> string) list"
  stock_value :: string
  chart_options :: "(string \<times> string) list"
  chart_value :: string
  plot_clicks :: int

text \<open>\<^verbatim>\<open>random.choice(xs)\<close>, the random number being \<open>r\<close>: it raises on an empty list.\<close>

definition choice :: "nat \<Rightarrow> 'a list \<Rightarrow> 'a result" where
  "choice r xs = (if xs = [] then Inl IndexError else Inr (xs ! (r mod length xs)))"

section \<open>app.py\<close>

definition app_background :: string where
  "app_background = ''#000000''"

definition app_text :: string where
  "app_text = ''#ffFFFF''"

definition default_tickers :: "pyval list" where
  "default_tickers = [PStr ''AAPL'', PStr ''GOOGL'', PStr ''MSFT'', PStr ''AMZN'', PStr ''TSLA'']"

definition app_chart_options :: "(string \<times> string) list" where
  "app_chart_options =
     [(''Line'', ''Line''), (''Candlestick'', ''Candlestick''),
      (''Simple moving average'', ''SMA''), (''Exponential moving average'', ''EMA''),
      (''MACD'', ''MACD''), (''RSI'', ''RSI''), (''OHLC'', ''OHLC'')]"

text \<open>
  Lines 31 to 108: the ticker list is unpickled from tickers.pickle (\<open>None\<close>: the
  file is missing, and the default list stands in), then the layout is built; the
  ticker dropdown starts at a random entry of the list.
\<close>

definition app_startup :: "(pyval list) option \<Rightarrow> nat \<Rightarrow> (process \<times> ui) result" where
  "app_startup pickle_file r =
     (let w0 = \<lparr>ticker_list = [], pickle_opens = 1, fetch_log = [], price_log = [],
                stdout = []\<rparr>;
          w = (case pickle_file of
                 Some tickers \<Rightarrow> w0\<lparr>ticker_list := tickers\<rparr>
               | None \<Rightarrow>
                   (print (Text ''tickers.pickle not found. Using default tickers.'') w0)
                     \<lparr>ticker_list := default_tickers\<rparr>)
      in bind_r (choice r (ticker_list w)) (\<lambda>t.
           Inr (w, \<lparr>stock_options = map (\<lambda>ticker. (py_str ticker, py_str ticker)) (ticker_list w),
                    stock_value = py_str t,
                    chart_options = app_chart_options,
                    chart_value = ''Line'',
                    plot_clicks = 0\<rparr>)))"

text \<open>Lines 142 to 149.\<close>

definition app_live_layout :: "string \<Rightarrow> layout" where
  "app_live_layout ticker =
     \<lparr>l_height = 300, l_title = Some (''Live Price of '' @ ticker),
      l_showlegend = Some False, plot_bgcolor = app_background,
      paper_bgcolor = app_background, font_color = app_text, l_xaxes = None\<rparr>"

text \<open>Lines 137 to 141: the live-price figure, a single marker at the last close.\<close>

definition app_live_price_fig :: "string \<Rightarrow> dataframe \<Rightarrow> figure result" where
  "app_live_price_fig ticker df =
     bind_r (py_index (df_index df) (- 1)) (\<lambda>d.
     bind_r (py_index (df_close df) (- 1)) (\<lambda>c.
       Inr (Figure
         [Scatter [d] [Some c] ''Live Price''
            [(''mode'', ''markers+text''), (''text'', ''$'' @ fmt2 c),
             (''textposition'', ''top center''), (''marker.size'', ''10''),
             (''marker.color'', ''red'')]]
         (app_live_layout ticker))))"

text \<open>Lines 154 to 174: the dispatch on the chart type; \<open>df\<close> also stands for \<^verbatim>\<open>Sdf(df)\<close>.\<close>

definition app_chart_traces :: "libs \<Rightarrow> string \<Rightarrow> dataframe \<Rightarrow> (trace list) result" where
  "app_chart_traces L chart_name df =
     (if chart_name = ''Line'' then
        Inr [Scatter (df_index df) (map Some (df_close df)) ''Close'' [(''fill'', ''tozeroy'')]]
      else if chart_name = ''Candlestick'' then
        Inr [Candlestick (df_index df) (df_open df) (df_high df) (df_low df) (df_close df)
               ''Candlestick'']
      else if chart_name = ''SMA'' then
        Inr [Scatter (df_index df) (rolling_mean 10 (df_close df)) ''10 Days'' [],
             Scatter (df_index df) (rolling_mean 30 (df_close df)) ''30 Days'' []]
      else if chart_name = ''EMA'' then
        Inr [Scatter (df_index df) (ewm_mean 10 (df_close df)) ''10 Days'' [],
             Scatter (df_index df) (ewm_mean 30 (df_close df)) ''30 Days'' []]
      else if chart_name = ''MACD'' then
        bind_r (stock_get L df ''macd'') (\<lambda>macd.
        bind_r (stock_get L df ''macds'') (\<lambda>signal.
        bind_r (stock_get L df ''macdh'') (\<lambda>hist.
          Inr [Scatter (df_index df) macd ''MACD'' [],
               Scatter (df_index df) signal ''Signal'' [],
               Scatter (df_index df) hist ''Histogram''
                 [(''line.color'', ''royalblue''), (''line.width'', ''2''),
                  (''line.dash'', ''dot'')]])))
      else if chart_name = ''RSI'' then
        bind_r (stock_get L df ''rsi_6'') (\<lambda>rsi_6.
        bind_r (stock_get L df ''rsi_12'') (\<lambda>rsi_12.
          Inr [Scatter (df_index df) rsi_6 ''RSI 6 Day'' [],
               Scatter (df_index df) rsi_12 ''RSI 12 Day'' []]))
      else if chart_name = ''OHLC'' then
        Inr [Ohlc (df_index df) (df_open df) (df_high df) (df_low df) (df_close df)]
      else Inr [])"

definition mk_button :: "nat \<Rightarrow> string \<Rightarrow> string \<Rightarrow> button" where
  "mk_button c l s =
     \<lparr>b_count = Some c, b_label = Some l, b_step = s, b_stepmode = Some ''backward''\<rparr>"

text \<open>Lines 176 to 198.\<close>

definition app_layout :: "string \<Rightarrow> layout" where
  "app_layout chart_name =
     \<lparr>l_height = 1000, l_title = Some chart_name, l_showlegend = Some True,
      plot_bgcolor = app_background, paper_bgcolor = app_background, font_color = app_text,
      l_xaxes = Some
        \<lparr>rangeslider_visible = True, activecolor = ''blue'', bgcolor = app_background,
         buttons =
           [mk_button 7 ''10D'' ''day'', mk_button 15 ''15D'' ''day'',
            mk_button 1 ''1m'' ''month'', mk_button 3 ''3m'' ''month'',
            mk_button 6 ''6m'' ''month'', mk_button 1 ''1y'' ''year'']\<rparr>\<rparr>"

text \<open>
  Lines 116 to 200, the callback of the plot button. It returns the chart and the
  live-price figure, in this order, and the process with the effects added.
\<close>

definition app_graph_generator ::
  "libs \<Rightarrow> date \<Rightarrow> int \<Rightarrow> string \<Rightarrow> string \<Rightarrow> process \<Rightarrow> (figure \<times> figure) result \<times> process"
where
  "app_graph_generator L now n_clicks ticker chart_name w =
     (if n_clicks = 0 then (Inr (EmptyDict, EmptyDict), w)
      else
        let w1 = print (Text (''Fetching data for '' @ ticker @ ''...'')) w;
            (fetched, w2) = fetch L now ticker w1
        in case fetched of
             Inl e \<Rightarrow> (Inl e, w2)
           | Inr df \<Rightarrow>
               if df = [] then
                 (Inr (EmptyDict, EmptyDict),
                  print (Text (''Error: No data returned for '' @ ticker @ ''.'')) w2)
               else
                 let w3 = print (Text (''Data loaded successfully for '' @ ticker
                                        @ ''. First few rows:'')) w2;
                     w4 = print (Head (take 5 df)) w3
                 in (bind_r (app_live_price_fig ticker df) (\<lambda>live_price_fig.
                     bind_r (app_chart_traces L chart_name df) (\<lambda>ts.
                       Inr (Figure ts (app_layout chart_name), live_price_fig))),
                     w4))"

text \<open>Lines 16 to 22 (and 20 to 26 of st2.py): the two Flask routes render a template.\<close>

datatype page = Page string

definition home :: "process \<Rightarrow> page \<times> process" where
  "home w = (Page ''index.html'', w)"

definition about :: "process \<Rightarrow> page \<times> process" where
  "about w = (Page ''about.html'', w)"

section \<open>st2.py\<close>

definition st2_background :: string where
  "st2_background = ''#000000''"

definition st2_text :: string where
  "st2_text = ''#FFFFFF''"

definition st2_chart_options :: "(string \<times> string) list" where
  "st2_chart_options =
     [(''line'', ''Line''), (''candlestick'', ''Candlestick''),
      (''Simple moving average'', ''SMA''), (''Exponential moving average'', ''EMA''),
      (''MACD'', ''MACD''), (''RSI'', ''RSI''), (''OHLC'', ''OHLC'')]"

definition st2_start_tickers :: "string list" where
  "st2_start_tickers =
     [''TSLA'', ''GOOGL'', ''F'', ''GE'', ''AAL'', ''DIS'', ''DAL'', ''AAPL'', ''MSFT'',
      ''CCL'', ''GPRO'', ''ACB'', ''PLUG'', ''AMZN'']"

text \<open>
  Lines 35 to 128: no handler around the open, so a missing file ends the startup;
  the ticker dropdown starts at a random entry of a fixed list.
\<close>

definition st2_startup :: "(pyval list) option \<Rightarrow> nat \<Rightarrow> (process \<times> ui) result" where
  "st2_startup pickle_file r =
     (case pickle_file of
        None \<Rightarrow> Inl FileNotFoundError
      | Some tickers \<Rightarrow>
          let w = \<lparr>ticker_list = tickers, pickle_opens = 1, fetch_log = [], price_log = [],
                   stdout = []\<rparr>
          in bind_r (choice r st2_start_tickers) (\<lambda>t.
               Inr (w, \<lparr>stock_options =
                          map (\<lambda>i. (py_str (ticker_list w ! i), py_str (ticker_list w ! i)))
                            [0..<length (ticker_list w)],
                        stock_value = t,
                        chart_options = st2_chart_options,
                        chart_value = ''Line'',
                        plot_clicks = 1\<rparr>)))"

text \<open>
  Reading a local variable: \<open>None\<close> is the variable not yet assigned. In st2.py
  \<^verbatim>\<open>df\<close> and \<^verbatim>\<open>stock\<close> are assigned together, inside the \<^verbatim>\<open>if\<close> of line 138, and
  \<^verbatim>\<open>stock\<close> is \<^verbatim>\<open>Sdf(df)\<close>: one optional dataframe stands for both.
\<close>

definition bound :: "'a option \<Rightarrow> 'a result" where
  "bound v = (case v of None \<Rightarrow> Inl UnboundLocalError | Some x \<Rightarrow> Inr x)"

text \<open>Line 143: \<^verbatim>\<open>df.close = df.close * 1.1\<close>.\<close>

definition scale_close :: "dataframe \<Rightarrow> dataframe" where
  "scale_close df = map (\<lambda>r. r\<lparr>close := close r * (11 / 10)\<rparr>) df"

text \<open>
  Lines 148 to 172: the dispatch on the chart type. In the MACD branch the third trace
  (line 166) reads \<^verbatim>\<open>df.hist\<close>, which is the method \<^verbatim>\<open>DataFrame.hist\<close> and not the column
  assigned in line 163: \<^verbatim>\<open>list(df.hist)\<close> raises TypeError, after the traces of lines 164
  and 165 have been added to a figure that is then lost.
\<close>

definition st2_chart_traces :: "libs \<Rightarrow> string \<Rightarrow> dataframe option \<Rightarrow> (trace list) result" where
  "st2_chart_traces L chart_name dfo =
     (if chart_name = ''Line'' then
        bind_r (bound dfo) (\<lambda>df.
          Inr [Scatter (df_index df) (map Some (df_close df)) ''close'' [(''fill'', ''tozeroy'')]])
      else if chart_name = ''Candlestick'' then
        bind_r (bound dfo) (\<lambda>df.
          Inr [Candlestick (df_index df) (df_open df) (df_high df) (df_low df) (df_close df)
                 ''Candlestick''])
      else if chart_name = ''SMA'' then
        bind_r (bound dfo) (\<lambda>df.
          Inr [Scatter (df_index df) (rolling_mean 10 (df_close df)) ''10 Days'' [],
               Scatter (df_index df) (rolling_mean 15 (df_close df)) ''15 Days'' [],
               Scatter (df_index df) (rolling_mean 30 (df_close df)) ''30 Days'' [],
               Scatter (df_index df) (rolling_mean 100 (df_close df)) ''100 Days'' []])
      else if chart_name = ''EMA'' then
        bind_r (bound dfo) (\<lambda>df.
          Inr [Scatter (df_index df) (ewm_mean 10 (df_close df)) ''10 Days'' [],
               Scatter (df_index df) (ewm_mean 15 (df_close df)) ''15 Days'' [],
               Scatter (df_index df) (ewm_mean 30 (df_close df)) ''30 Days'' [],
               Scatter (df_index df) (ewm_mean 100 (df_close df)) ''100 Days'' []])
      else if chart_name = ''MACD'' then
        bind_r (bound dfo) (\<lambda>df.
        bind_r (stock_get L df ''macd'') (\<lambda>macd.
        bind_r (stock_get L df ''macds'') (\<lambda>signal.
        bind_r (stock_get L df ''macdh'') (\<lambda>hist.
          Inl TypeError))))
      else if chart_name = ''RSI'' then
        bind_r (bound dfo) (\<lambda>df.
        bind_r (stock_get L df ''rsi_6'') (\<lambda>rsi_6.
        bind_r (stock_get L df ''rsi_12'') (\<lambda>rsi_12.
          Inr [Scatter (df_index df) rsi_6 ''RSI 6 Day'' [],
               Scatter (df_index df) rsi_12 ''RSI 12 Day'' []])))
      else if chart_name = ''OHLC'' then
        bind_r (bound dfo) (\<lambda>df.
          Inr [Ohlc (df_index df) (df_open df) (df_high df) (df_low df) (df_close df)])
      else Inr [])"

text \<open>Lines 174 to 195.\<close>

definition st2_layout :: "string \<Rightarrow> layout" where
  "st2_layout chart_name =
     \<lparr>l_height = 1000, l_title = Some chart_name, l_showlegend = Some True,
      plot_bgcolor = st2_background, paper_bgcolor = st2_background, font_color = st2_text,
      l_xaxes = Some
        \<lparr>rangeslider_visible = True, activecolor = ''green'', bgcolor = ''green'',
         buttons =
           [mk_button 30 ''30D'' ''day'', mk_button 6 ''6M'' ''month'',
            mk_button 1 ''1Y'' ''year'', mk_button 5 ''5Y'' ''year'',
            \<lparr>b_count = None, b_label = None, b_step = ''all'', b_stepmode = None\<rparr>]\<rparr>\<rparr>"

text \<open>Lines 206 to 211.\<close>

definition st2_live_layout :: layout where
  "st2_live_layout =
     \<lparr>l_height = 200, l_title = None, l_showlegend = None,
      plot_bgcolor = st2_background, paper_bgcolor = st2_background,
      font_color = st2_text, l_xaxes = None\<rparr>"

text \<open>
  Lines 197 to 205: the live-price figure, the last close with the one before it as
  the reference of the delta.
\<close>

definition st2_live_price :: "string \<Rightarrow> dataframe option \<Rightarrow> figure result" where
  "st2_live_price ticker dfo =
     bind_r (bound dfo) (\<lambda>df.
     bind_r (py_index (df_close df) (- 1)) (\<lambda>v.
     bind_r (py_index (df_close df) (- 2)) (\<lambda>ref.
       Inr (Figure
         [Indicator ''number+delta'' v ''$'' ref (ticker @ '' Live Price'')]
         st2_live_layout))))"

text \<open>
  Lines 136 to 213, the callback of the plot button. Only the fetch stands under the
  test of \<^verbatim>\<open>n_clicks\<close>; the figures are built after it in every case.
\<close>

definition st2_graph_generator ::
  "libs \<Rightarrow> date \<Rightarrow> int \<Rightarrow> string \<Rightarrow> string \<Rightarrow> process \<Rightarrow> (figure \<times> figure) result \<times> process"
where
  "st2_graph_generator L now n_clicks ticker chart_name w =
     (let (fetched, w1) =
            (if 1 \<le> n_clicks then
               (let (got, w') = fetch L now ticker w
                in (bind_r got (\<lambda>df. Inr (Some (scale_close df))), w'))
             else (Inr None, w))
      in (bind_r fetched (\<lambda>dfo.
          bind_r (st2_chart_traces L chart_name dfo) (\<lambda>ts.
          bind_r (st2_live_price ticker dfo) (\<lambda>live_price.
            Inr (Figure ts (st2_layout chart_name), live_price)))),
          w1))"

text \<open>
  Lines 221 to 228, the callback of the buy and close buttons: the new state of the
  modal and its body.
\<close>

definition toggle_modal ::
  "libs \<Rightarrow> int option \<Rightarrow> int option \<Rightarrow> bool \<Rightarrow> string \<Rightarrow> process \<Rightarrow> (bool \<times> string) result \<times> process"
where
  "toggle_modal L n1 n2 is_open stock_name w =
     (if truthy n1 \<or> truthy n2 then
        if \<not> is_open then
          (bind_r (get_live_price L stock_name) (\<lambda>live_price.
             Inr (True, ''Do you want to buy '' @ stock_name @ '' at $''
                          @ fmt2f (float_mul live_price float_1_1) @ ''?'')),
           w\<lparr>price_log := price_log w @ [stock_name]\<rparr>)
        else (Inr (False, []), w)
      else (Inr (is_open, []), w))"

section \<open>Interactions with a running process\<close>

text \<open>
  What a browser can ask of each program, with the clock's date where the handler
  reads it. A handler's answer goes to the browser; the process goes on to the next
  request.
\<close>

datatype app_event =
    AppPlot date int string string
  | AppHome
  | AppAbout

datatype st2_event =
    St2Plot date int string string
  | St2Buy "int option" "int option" bool string
  | St2Home
  | St2About

fun app_handle :: "libs \<Rightarrow> app_event \<Rightarrow> process \<Rightarrow> process" where
  "app_handle L (AppPlot now n t c) w = snd (app_graph_generator L now n t c w)"
| "app_handle L AppHome w = snd (home w)"
| "app_handle L AppAbout w = snd (about w)"

fun st2_handle :: "libs \<Rightarrow> st2_event \<Rightarrow> process \<Rightarrow> process" where
  "st2_handle L (St2Plot now n t c) w = snd (st2_graph_generator L now n t c w)"
| "st2_handle L (St2Buy n1 n2 is_open s) w = snd (toggle_modal L n1 n2 is_open s w)"
| "st2_handle L St2Home w = snd (home w)"
| "st2_handle L St2About w = snd (about w)"

fun app_run :: "libs \<Rightarrow> app_event list \<Rightarrow> process \<Rightarrow> process" where
  "app_run L [] w = w"
| "app_run L (e # es) w = app_run L es (app_handle L e w)"

fun st2_run :: "libs \<Rightarrow> st2_event list \<Rightarrow> process \<Rightarrow> process" where
  "st2_run L [] w = w"
| "st2_run L (e # es) w = st2_run L es (st2_handle L e w)"

text \<open>The ticker list a start has loaded, when the start succeeds.\<close>

definition started_with :: "(process \<times> ui) result \<Rightarrow> (pyval list) result" where
  "started_with s = bind_r s (\<lambda>(w, u). Inr (ticker_list w))"

section \<open>Sample inputs\<close>

text \<open>
  Concrete inputs at which the theorems below are instantiated: a provider that
  answers every request with a given frame, a live price of 0.75, and indicator
  columns that are all NaN.
\<close>

definition sample_row :: "date \<Rightarrow> real \<Rightarrow> row" where
  "sample_row d c =
     \<lparr>date = d, open_px = c, high = c + 1, low = c - 1, close = c, volume = 1000\<rparr>"

definition one_row :: dataframe where
  "one_row = [sample_row 1 100]"

definition two_rows :: dataframe where
  "two_rows = [sample_row 1 100, sample_row 2 110]"

text \<open>The same index and closes as \<open>two_rows\<close>, the other columns changed.\<close>

definition two_rows_alt :: dataframe where
  "two_rows_alt = map (\<lambda>r. r\<lparr>open_px := 0, high := 200, low := 0, volume := 5\<rparr>) two_rows"

definition sample_libs :: "dataframe \<Rightarrow> libs" where
  "sample_libs df =
     \<lparr>download = (\<lambda>ticker start_date end_date. Inr df),
      get_live_price = (\<lambda>ticker. Inr (Finite (3 / 4))),
      stock_get = (\<lambda>d name. Inr (map (\<lambda>r. None) d))\<rparr>"

text \<open>A provider that is down: every call raises.\<close>

definition failing_libs :: libs where
  "failing_libs =
     \<lparr>download = (\<lambda>ticker start_date end_date. Inl (LibraryError ''no connection'')),
      get_live_price = (\<lambda>ticker. Inl (LibraryError ''no connection'')),
      stock_get = (\<lambda>d name. Inl (LibraryError ''no connection''))\<rparr>"

definition fresh :: process where
  "fresh = \<lparr>ticker_list = default_tickers, pickle_opens = 1, fetch_log = [], price_log = [],
            stdout = []\<rparr>"

text \<open>A session of each program, and the dropdowns of a start on the one ticker IBM.\<close>

definition sample_app_events :: "app_event list" where
  "sample_app_events =
     [AppHome, AppPlot 0 0 ''IBM'' ''Line'', AppPlot 0 1 ''IBM'' ''SMA'', AppAbout,
      AppPlot 1 2 ''IBM'' ''MACD'']"

definition sample_st2_events :: "st2_event list" where
  "sample_st2_events =
     [St2Home, St2Plot 0 1 ''IBM'' ''Line'', St2Buy (Some 1) None False ''IBM'',
      St2Buy (Some 1) (Some 1) True ''IBM'', St2About, St2Plot 1 0 ''IBM'' ''RSI'']"

definition sample_ui_app :: ui where
  "sample_ui_app =
     \<lparr>stock_options = [(''IBM'', ''IBM'')], stock_value = ''IBM'',
      chart_options = app_chart_options, chart_value = ''Line'', plot_clicks = 0\<rparr>"

definition sample_ui_st2 :: ui where
  "sample_ui_st2 =
     \<lparr>stock_options = [(''IBM'', ''IBM'')], stock_value = ''TSLA'',
      chart_options = st2_chart_options, chart_value = ''Line'', plot_clicks = 1\<rparr>"


section \<open>Basic facts\<close>

lemma bind_r_Inl [simp]: "bind_r (Inl e) f = Inl e"
  by (simp add: bind_r_def)

lemma bind_r_Inr [simp]: "bind_r (Inr x) f = f x"
  by (simp add: bind_r_def)

lemma bound_None [simp]: "bound None = Inl UnboundLocalError"
  by (simp add: bound_def)

lemma bound_Some [simp]: "bound (Some x) = Inr x"
  by (simp add: bound_def)

text \<open>The two pandas operations on a short column, as pandas prints them.\<close>

lemma rolling_mean_example: "rolling_mean 3 [1, 2, 3, 6] = [None, None, Some 2, Some (11 / 3)]"
  by (simp add: rolling_mean_def upt_rec)

lemma ewm_mean_example: "ewm_mean 3 [1, 2, 3] = [Some 1, Some (5 / 3), Some (17 / 7)]"
  by (simp add: ewm_mean_def)

lemma py_index_last: "py_index xs (- 1) = (if xs = [] then Inl IndexError else Inr (last xs))"
proof (cases xs rule: rev_cases)
  case Nil
  then show ?thesis by (simp add: py_index_def)
next
  case (snoc ys y)
  then show ?thesis by (simp add: py_index_def nat_add_distrib)
qed

lemma py_index_before_last:
  "py_index xs (- 2) =
     (if length xs < 2 then Inl IndexError else Inr (xs ! (length xs - 2)))"
proof (cases "length xs < 2")
  case True
  then show ?thesis by (auto simp: py_index_def)
next
  case False
  then have "nat (int (length xs) + - 2) = length xs - 2" by linarith
  with False show ?thesis by (auto simp: py_index_def)
qed

lemma df_index_scale [simp]: "df_index (scale_close df) = df_index df"
  by (simp add: df_index_def scale_close_def comp_def)

lemma df_open_scale [simp]: "df_open (scale_close df) = df_open df"
  by (simp add: df_open_def scale_close_def comp_def)

lemma df_high_scale [simp]: "df_high (scale_close df) = df_high df"
  by (simp add: df_high_def scale_close_def comp_def)

lemma df_low_scale [simp]: "df_low (scale_close df) = df_low df"
  by (simp add: df_low_def scale_close_def comp_def)

lemma df_close_scale: "df_close (scale_close df) = map (\<lambda>c. c * (11 / 10)) (df_close df)"
  by (simp add: df_close_def scale_close_def comp_def)

lemma length_df_close [simp]: "length (df_close df) = length df"
  by (simp add: df_close_def)

lemma length_scale_close [simp]: "length (scale_close df) = length df"
  by (simp add: scale_close_def)

lemma st2_live_price_short:
  "length df < 2 \<Longrightarrow> st2_live_price ticker (Some df) = Inl IndexError"
  by (cases "df = []") (simp_all add: st2_live_price_def py_index_last py_index_before_last df_close_def)

lemma st2_live_price_unbound: "st2_live_price ticker None = Inl UnboundLocalError"
  by (simp add: st2_live_price_def)

lemma st2_chart_unbound:
  "c \<in> snd ` set st2_chart_options \<Longrightarrow> st2_chart_traces L c None = Inl UnboundLocalError"
  by (auto simp: st2_chart_options_def st2_chart_traces_def)

lemma st2_chart_None:
  "st2_chart_traces L c None =
     (if c \<in> snd ` set st2_chart_options then Inl UnboundLocalError else Inr [])"
  by (simp add: st2_chart_options_def st2_chart_traces_def)

lemma st2_unbound:
  "n < 1 \<Longrightarrow> st2_graph_generator L now n t c w = (Inl UnboundLocalError, w)"
  by (simp add: st2_graph_generator_def st2_live_price_unbound st2_chart_None)

lemma st2_chart_stock_free:
  "c \<noteq> ''MACD'' \<Longrightarrow> c \<noteq> ''RSI'' \<Longrightarrow> \<exists>ts. st2_chart_traces L c (Some df) = Inr ts"
  by (simp add: st2_chart_traces_def)

lemma st2_short:
  assumes "1 \<le> n" "download L t (now - 5 * 365) now = Inr df" "length df < 2"
  shows "\<exists>e. fst (st2_graph_generator L now n t c w) = Inl e"
    and "c \<noteq> ''MACD'' \<Longrightarrow> c \<noteq> ''RSI'' \<Longrightarrow>
         fst (st2_graph_generator L now n t c w) = Inl IndexError"
proof -
  have live: "st2_live_price t (Some (scale_close df)) = Inl IndexError"
    using assms(3) by (simp add: st2_live_price_short)
  have run: "fst (st2_graph_generator L now n t c w) =
      bind_r (st2_chart_traces L c (Some (scale_close df))) (\<lambda>ts. Inl IndexError)"
    using assms(1,2) by (simp add: st2_graph_generator_def fetch_def live)
  show "\<exists>e. fst (st2_graph_generator L now n t c w) = Inl e"
    unfolding run by (cases "st2_chart_traces L c (Some (scale_close df))") simp_all
  show "fst (st2_graph_generator L now n t c w) = Inl IndexError"
    if "c \<noteq> ''MACD''" "c \<noteq> ''RSI''"
    using st2_chart_stock_free [OF that, of L "scale_close df"] unfolding run by auto
qed


lemma st2_live_price_ok:
  assumes "2 \<le> length df"
  shows "st2_live_price t (Some (scale_close df)) =
     Inr (Figure
       [Indicator ''number+delta'' (last (df_close df) * (11 / 10)) ''$''
          (df_close df ! (length df - 2) * (11 / 10)) (t @ '' Live Price'')]
       st2_live_layout)"
proof -
  from assms have ne: "df_close df \<noteq> []" by (auto simp: df_close_def)
  from assms have lt: "length df - 2 < length (df_close df)" by simp
  show ?thesis
    using assms ne lt
    by (simp add: st2_live_price_def py_index_last py_index_before_last df_close_scale
        last_map st2_live_layout_def)
qed

lemma st2_run_ok:
  assumes "1 \<le> n" "download L t (now - 5 * 365) now = Inr df" "2 \<le> length df"
  shows "fst (st2_graph_generator L now n t c w) =
     bind_r (st2_chart_traces L c (Some (scale_close df))) (\<lambda>ts.
       Inr (Figure ts (st2_layout c),
            Figure
              [Indicator ''number+delta'' (last (df_close df) * (11 / 10)) ''$''
                 (df_close df ! (length df - 2) * (11 / 10)) (t @ '' Live Price'')]
              st2_live_layout))"
  using assms(1,2) by (simp add: st2_graph_generator_def fetch_def st2_live_price_ok [OF assms(3)])

lemma st2_returns_needs:
  assumes "download L t (now - 5 * 365) now = Inr df"
      and "fst (st2_graph_generator L now n t c w) = Inr r"
  shows "1 \<le> n \<and> 2 \<le> length df"
proof -
  have "1 \<le> n"
  proof (rule ccontr)
    assume "\<not> 1 \<le> n"
    then have "n < 1" by simp
    from st2_unbound [OF this] assms(2) show False by simp
  qed
  moreover have "2 \<le> length df"
  proof (rule ccontr)
    assume "\<not> 2 \<le> length df"
    then have "length df < 2" by simp
    from st2_short(1) [OF \<open>1 \<le> n\<close> assms(1) this, where c = c and w = w] assms(2)
    show False by auto
  qed
  ultimately show ?thesis by simp
qed

lemma app_live_price_fig_ok:
  "df \<noteq> [] \<Longrightarrow> \<exists>f. app_live_price_fig t df = Inr f"
  by (simp add: app_live_price_fig_def py_index_last df_index_def df_close_def)

lemma app_plot_run:
  assumes "n \<noteq> 0" "download L t (now - 5 * 365) now = Inr df" "df \<noteq> []"
  shows "\<exists>live. app_live_price_fig t df = Inr live \<and>
           fst (app_graph_generator L now n t c w) =
             bind_r (app_chart_traces L c df) (\<lambda>ts. Inr (Figure ts (app_layout c), live))"
proof -
  obtain f where f: "app_live_price_fig t df = Inr f"
    using app_live_price_fig_ok [OF assms(3)] by blast
  have "fst (app_graph_generator L now n t c w) =
      bind_r (app_chart_traces L c df) (\<lambda>ts. Inr (Figure ts (app_layout c), f))"
    using assms by (simp add: app_graph_generator_def fetch_def Let_def f)
  with f show ?thesis by blast
qed

lemma dec_windows: "dec 10 = ''10''" "dec 15 = ''15''" "dec 30 = ''30''" "dec 100 = ''100''"
  by code_simp+

lemma app_startup_Inr:
  assumes "app_startup f r = Inr (w, u)"
  shows "ticker_list w = (case f of None \<Rightarrow> default_tickers | Some l \<Rightarrow> l)"
    and "ticker_list w \<noteq> []"
    and "pickle_opens w = 1"
    and "stock_options u = map (\<lambda>v. (py_str v, py_str v)) (ticker_list w)"
  using assms
  by (auto simp: app_startup_def choice_def print_def Let_def default_tickers_def
      split: option.splits if_splits)

lemma options_by_index:
  "map (\<lambda>i. (py_str (xs ! i), py_str (xs ! i))) [0..<length xs]
     = map (\<lambda>v. (py_str v, py_str v)) xs"
  by (rule nth_equalityI) simp_all

lemma st2_startup_Inr:
  assumes "st2_startup f r = Inr (w, u)"
  shows "f = Some (ticker_list w)"
    and "pickle_opens w = 1"
    and "stock_options u = map (\<lambda>v. (py_str v, py_str v)) (ticker_list w)"
  using assms
  by (auto simp: st2_startup_def choice_def Let_def st2_start_tickers_def options_by_index
      split: option.splits if_splits)

text \<open>
  In app.py an empty frame is caught by the test of line 127: the callback prints an
  error line and returns two empty figures, whatever the ticker and the chart type.
\<close>

lemma app_empty_fetch:
  assumes "n \<noteq> 0" "download L t (now - 5 * 365) now = Inr []"
  shows "fst (app_graph_generator L now n t c w) = Inr (EmptyDict, EmptyDict)"
  using assms by (simp add: app_graph_generator_def fetch_def Let_def)

section \<open>An empty fetch\<close>

text \<open>
  app.py tests for an empty frame (lemma \<open>app_empty_fetch\<close>); st2.py has no such
  test. After a click, an empty frame never gives figures there: the read of the last
  close fails.
\<close>

lemma st2_empty_fetch:
  assumes "1 \<le> n" "download L t (now - 5 * 365) now = Inr []"
  shows "\<exists>e. fst (st2_graph_generator L now n t c w) = Inl e"
  using st2_short(1) [OF assms] by simp

text \<open>
  Claim C1 says that an empty fetch gives two empty figures and no exception, in both
  variants. At one click, the ticker AAPL, the chart type Line and a provider that
  returns an empty frame, st2.py raises IndexError, where app.py returns the two empty
  figures.
\<close>

theorem st2_empty_fetch_raises:
  "fst (st2_graph_generator (sample_libs []) 0 1 ''AAPL'' ''Line'' fresh) = Inl IndexError \<and>
   fst (app_graph_generator (sample_libs []) 0 1 ''AAPL'' ''Line'' fresh)
     = Inr (EmptyDict, EmptyDict)"
proof -
  have dl: "download (sample_libs []) ''AAPL'' (0 - 5 * 365) 0 = Inr []"
    by (simp add: sample_libs_def)
  have "fst (st2_graph_generator (sample_libs []) 0 1 ''AAPL'' ''Line'' fresh) = Inl IndexError"
    by (rule st2_short(2) [OF _ dl]) simp_all
  moreover have "fst (app_graph_generator (sample_libs []) 0 1 ''AAPL'' ''Line'' fresh)
      = Inr (EmptyDict, EmptyDict)"
    by (simp add: app_graph_generator_def fetch_def sample_libs_def Let_def)
  ultimately show ?thesis by simp
qed

section \<open>A trace for every chart type of the dropdown\<close>

text \<open>
  Each branch of the dispatch adds a trace: for a chart type of the dropdown, traces
  that are returned are not empty.
\<close>

lemma app_chart_traces_nonempty:
  assumes "c \<in> snd ` set app_chart_options" "app_chart_traces L c df = Inr ts"
  shows "ts \<noteq> []"
  using assms
  by (auto simp: app_chart_options_def app_chart_traces_def bind_r_def split: sum.splits)

lemma st2_chart_traces_nonempty:
  assumes "c \<in> snd ` set st2_chart_options" "st2_chart_traces L c dfo = Inr ts"
  shows "ts \<noteq> []"
  using assms
  by (cases dfo)
    (auto simp: st2_chart_options_def st2_chart_traces_def bind_r_def split: sum.splits)

text \<open>
  In app.py a frame of one row or more gives the chart, unless stockstats raises in
  the MACD or RSI branch.
\<close>

lemma app_plot_has_trace:
  assumes "n \<noteq> 0" "download L t (now - 5 * 365) now = Inr df" "df \<noteq> []"
      and "c \<in> snd ` set app_chart_options"
  shows "fst (app_graph_generator L now n t c w) = Inr (fig, live) \<Longrightarrow> fig_traces fig \<noteq> []"
    and "c \<noteq> ''MACD'' \<Longrightarrow> c \<noteq> ''RSI'' \<Longrightarrow>
         \<exists>fig live. fst (app_graph_generator L now n t c w) = Inr (fig, live)"
proof -
  obtain f where run: "fst (app_graph_generator L now n t c w) =
      bind_r (app_chart_traces L c df) (\<lambda>ts. Inr (Figure ts (app_layout c), f))"
    using app_plot_run [OF assms(1-3)] by blast
  show "fig_traces fig \<noteq> []" if "fst (app_graph_generator L now n t c w) = Inr (fig, live)"
    using that app_chart_traces_nonempty [OF assms(4), of L df]
    unfolding run by (cases "app_chart_traces L c df") auto
  show "\<exists>fig live. fst (app_graph_generator L now n t c w) = Inr (fig, live)"
    if "c \<noteq> ''MACD''" "c \<noteq> ''RSI''"
    using that unfolding run by (simp add: app_chart_traces_def)
qed

text \<open>
  In st2.py the same holds from two rows on. There the MACD branch gives no chart on
  any input: once stockstats has answered, line 166 raises TypeError.
\<close>

lemma st2_macd_type_error:
  assumes "stock_get L df ''macd'' = Inr a" "stock_get L df ''macds'' = Inr b"
      and "stock_get L df ''macdh'' = Inr c"
  shows "st2_chart_traces L ''MACD'' (Some df) = Inl TypeError"
  using assms by (simp add: st2_chart_traces_def)

lemma st2_macd_raises: "\<exists>e. fst (st2_graph_generator L now n t ''MACD'' w) = Inl e"
proof -
  have chart: "\<exists>e. st2_chart_traces L ''MACD'' dfo = Inl e" for dfo
    by (cases dfo) (auto simp: st2_chart_traces_def bind_r_def split: sum.splits)
  show ?thesis
  proof (cases "1 \<le> n")
    case False
    then show ?thesis by (simp add: st2_unbound)
  next
    case True
    show ?thesis
    proof (cases "download L t (now - 5 * 365) now")
      case (Inl e)
      with True show ?thesis
        by (simp add: st2_graph_generator_def fetch_def)
    next
      case (Inr df)
      from chart [of "Some (scale_close df)"] obtain e
        where "st2_chart_traces L ''MACD'' (Some (scale_close df)) = Inl e" by blast
      with True Inr show ?thesis
        by (simp add: st2_graph_generator_def fetch_def)
    qed
  qed
qed

lemma st2_plot_has_trace:
  assumes "1 \<le> n" "download L t (now - 5 * 365) now = Inr df" "2 \<le> length df"
      and "c \<in> snd ` set st2_chart_options"
  shows "fst (st2_graph_generator L now n t c w) = Inr (fig, live) \<Longrightarrow> fig_traces fig \<noteq> []"
    and "c \<noteq> ''MACD'' \<Longrightarrow> c \<noteq> ''RSI'' \<Longrightarrow>
         \<exists>fig live. fst (st2_graph_generator L now n t c w) = Inr (fig, live)"
proof -
  note run = st2_run_ok [OF assms(1-3), of c w]
  show "fig_traces fig \<noteq> []" if "fst (st2_graph_generator L now n t c w) = Inr (fig, live)"
    using that st2_chart_traces_nonempty [OF assms(4), of L "Some (scale_close df)"]
    unfolding run by (cases "st2_chart_traces L c (Some (scale_close df))") auto
  show "\<exists>fig live. fst (st2_graph_generator L now n t c w) = Inr (fig, live)"
    if "c \<noteq> ''MACD''" "c \<noteq> ''RSI''"
    using st2_chart_stock_free [OF that, of L "scale_close df"] unfolding run by auto
qed

text \<open>
  Claim C2 says that every chart type of the dropdown gives a chart with a trace as
  soon as the fetched frame is not empty. In st2.py, at one click, the ticker AAPL,
  the chart type Line and a fetched frame of one row, the callback raises IndexError
  and returns no chart.
\<close>

theorem st2_one_row_raises:
  "one_row \<noteq> [] \<and>
   fst (st2_graph_generator (sample_libs one_row) 0 1 ''AAPL'' ''Line'' fresh) = Inl IndexError"
proof -
  have dl: "download (sample_libs one_row) ''AAPL'' (0 - 5 * 365) 0 = Inr one_row"
    by (simp add: sample_libs_def)
  have "fst (st2_graph_generator (sample_libs one_row) 0 1 ''AAPL'' ''Line'' fresh)
      = Inl IndexError"
    by (rule st2_short(2) [OF _ dl]) (simp_all add: one_row_def)
  then show ?thesis by (simp add: one_row_def)
qed

section \<open>The moving averages\<close>

text \<open>
  Claim C3. For the chart types SMA and EMA the callback plots moving averages of the
  close column of the dataframe and of no other column: windows (spans) of 10 and 30
  days in app.py, of 10, 15, 30 and 100 days in st2.py, where the column is the close
  column as line 143 has left it. Two frames with the same index and the same close
  column give the same traces.
\<close>

theorem moving_averages_over_close:
  "(n \<noteq> 0 \<and> download L t (now - 5 * 365) now = Inr df \<and> df \<noteq> [] \<longrightarrow>
      (\<exists>live. fst (app_graph_generator L now n t ''SMA'' w) =
         Inr (Figure
                (map (\<lambda>k. Scatter (df_index df) (rolling_mean k (df_close df))
                            (dec k @ '' Days'') []) [10, 30])
                (app_layout ''SMA''), live)) \<and>
      (\<exists>live. fst (app_graph_generator L now n t ''EMA'' w) =
         Inr (Figure
                (map (\<lambda>k. Scatter (df_index df) (ewm_mean k (df_close df))
                            (dec k @ '' Days'') []) [10, 30])
                (app_layout ''EMA''), live))) \<and>
   (1 \<le> n \<and> download L t (now - 5 * 365) now = Inr df \<and> 2 \<le> length df \<longrightarrow>
      (\<exists>live. fst (st2_graph_generator L now n t ''SMA'' w) =
         Inr (Figure
                (map (\<lambda>k. Scatter (df_index df) (rolling_mean k (df_close (scale_close df)))
                            (dec k @ '' Days'') []) [10, 15, 30, 100])
                (st2_layout ''SMA''), live)) \<and>
      (\<exists>live. fst (st2_graph_generator L now n t ''EMA'' w) =
         Inr (Figure
                (map (\<lambda>k. Scatter (df_index df) (ewm_mean k (df_close (scale_close df)))
                            (dec k @ '' Days'') []) [10, 15, 30, 100])
                (st2_layout ''EMA''), live))) \<and>
   (df_index df = df_index df' \<and> df_close df = df_close df' \<longrightarrow>
      app_chart_traces L ''SMA'' df = app_chart_traces L ''SMA'' df' \<and>
      app_chart_traces L ''EMA'' df = app_chart_traces L ''EMA'' df' \<and>
      st2_chart_traces L ''SMA'' (Some (scale_close df))
        = st2_chart_traces L ''SMA'' (Some (scale_close df')) \<and>
      st2_chart_traces L ''EMA'' (Some (scale_close df))
        = st2_chart_traces L ''EMA'' (Some (scale_close df')))"
proof (intro conjI impI)
  assume a: "n \<noteq> 0 \<and> download L t (now - 5 * 365) now = Inr df \<and> df \<noteq> []"
  then have run: "\<exists>live. app_live_price_fig t df = Inr live \<and>
           fst (app_graph_generator L now n t c w) =
             bind_r (app_chart_traces L c df) (\<lambda>ts. Inr (Figure ts (app_layout c), live))" for c
    by (simp add: app_plot_run)
  from run [of "''SMA''"]
  show "\<exists>live. fst (app_graph_generator L now n t ''SMA'' w) =
         Inr (Figure
                (map (\<lambda>k. Scatter (df_index df) (rolling_mean k (df_close df))
                            (dec k @ '' Days'') []) [10, 30])
                (app_layout ''SMA''), live)"
    by (auto simp: app_chart_traces_def dec_windows)
  from run [of "''EMA''"]
  show "\<exists>live. fst (app_graph_generator L now n t ''EMA'' w) =
         Inr (Figure
                (map (\<lambda>k. Scatter (df_index df) (ewm_mean k (df_close df))
                            (dec k @ '' Days'') []) [10, 30])
                (app_layout ''EMA''), live)"
    by (auto simp: app_chart_traces_def dec_windows)
next
  assume a: "1 \<le> n \<and> download L t (now - 5 * 365) now = Inr df \<and> 2 \<le> length df"
  then have run: "fst (st2_graph_generator L now n t c w) =
     bind_r (st2_chart_traces L c (Some (scale_close df))) (\<lambda>ts.
       Inr (Figure ts (st2_layout c),
            Figure
              [Indicator ''number+delta'' (last (df_close df) * (11 / 10)) ''$''
                 (df_close df ! (length df - 2) * (11 / 10)) (t @ '' Live Price'')]
              st2_live_layout))" for c
    by (simp add: st2_run_ok)
  show "\<exists>live. fst (st2_graph_generator L now n t ''SMA'' w) =
         Inr (Figure
                (map (\<lambda>k. Scatter (df_index df) (rolling_mean k (df_close (scale_close df)))
                            (dec k @ '' Days'') []) [10, 15, 30, 100])
                (st2_layout ''SMA''), live)"
    by (simp add: run st2_chart_traces_def dec_windows)
  show "\<exists>live. fst (st2_graph_generator L now n t ''EMA'' w) =
         Inr (Figure
                (map (\<lambda>k. Scatter (df_index df) (ewm_mean k (df_close (scale_close df)))
                            (dec k @ '' Days'') []) [10, 15, 30, 100])
                (st2_layout ''EMA''), live)"
    by (simp add: run st2_chart_traces_def dec_windows)
next
  assume a: "df_index df = df_index df' \<and> df_close df = df_close df'"
  then show "app_chart_traces L ''SMA'' df = app_chart_traces L ''SMA'' df'"
    by (simp add: app_chart_traces_def)
  from a show "app_chart_traces L ''EMA'' df = app_chart_traces L ''EMA'' df'"
    by (simp add: app_chart_traces_def)
  from a show "st2_chart_traces L ''SMA'' (Some (scale_close df))
        = st2_chart_traces L ''SMA'' (Some (scale_close df'))"
    by (simp add: st2_chart_traces_def df_close_scale)
  from a show "st2_chart_traces L ''EMA'' (Some (scale_close df))
        = st2_chart_traces L ''EMA'' (Some (scale_close df'))"
    by (simp add: st2_chart_traces_def df_close_scale)
qed

theorem moving_averages_over_close_witness:
  "download (sample_libs two_rows) ''AAPL'' (0 - 5 * 365) 0 = Inr two_rows \<and>
   two_rows \<noteq> [] \<and> 2 \<le> length two_rows \<and>
   df_index two_rows = df_index two_rows_alt \<and> df_close two_rows = df_close two_rows_alt \<and>
   two_rows \<noteq> two_rows_alt \<and>
   (\<exists>live. fst (app_graph_generator (sample_libs two_rows) 0 1 ''AAPL'' ''SMA'' fresh) =
      Inr (Figure [Scatter [1, 2] [None, None] ''10 Days'' [],
                   Scatter [1, 2] [None, None] ''30 Days'' []]
             (app_layout ''SMA''), live)) \<and>
   (\<exists>live. fst (app_graph_generator (sample_libs two_rows) 0 1 ''AAPL'' ''EMA'' fresh) =
      Inr (Figure [Scatter [1, 2] [Some 100, Some (211 / 2)] ''10 Days'' [],
                   Scatter [1, 2] [Some 100, Some (631 / 6)] ''30 Days'' []]
             (app_layout ''EMA''), live)) \<and>
   (\<exists>live. fst (st2_graph_generator (sample_libs two_rows) 0 1 ''AAPL'' ''EMA'' fresh) =
      Inr (Figure [Scatter [1, 2] [Some 110, Some (2321 / 20)] ''10 Days'' [],
                   Scatter [1, 2] [Some 110, Some (1738 / 15)] ''15 Days'' [],
                   Scatter [1, 2] [Some 110, Some (6941 / 60)] ''30 Days'' [],
                   Scatter [1, 2] [Some 110, Some (23111 / 200)] ''100 Days'' []]
             (st2_layout ''EMA''), live)) \<and>
   app_chart_traces (sample_libs two_rows) ''SMA'' two_rows
     = app_chart_traces (sample_libs two_rows) ''SMA'' two_rows_alt \<and>
   st2_chart_traces (sample_libs two_rows) ''EMA'' (Some (scale_close two_rows))
     = st2_chart_traces (sample_libs two_rows) ''EMA'' (Some (scale_close two_rows_alt))"
proof -
  have dl: "download (sample_libs two_rows) ''AAPL'' (0 - 5 * 365) 0 = Inr two_rows"
    by (simp add: sample_libs_def)
  have cols: "df_close two_rows = [100, 110]" "df_index two_rows = [1, 2]"
    "df_close two_rows_alt = [100, 110]" "df_index two_rows_alt = [1, 2]"
    by (simp_all add: two_rows_alt_def two_rows_def sample_row_def df_close_def df_index_def)
  have len: "two_rows \<noteq> []" "2 \<le> length two_rows" "two_rows \<noteq> two_rows_alt"
    by (simp_all add: two_rows_alt_def two_rows_def sample_row_def)
  have sma: "rolling_mean 10 [100, 110] = [None, None]" "rolling_mean 30 [100, 110] = [None, None]"
    by (simp_all add: rolling_mean_def upt_rec)
  have ema: "ewm_mean 10 [100, 110] = [Some 100, Some (211 / 2)]"
    "ewm_mean 30 [100, 110] = [Some 100, Some (631 / 6)]"
    "ewm_mean 10 [110, 121] = [Some 110, Some (2321 / 20)]"
    "ewm_mean 15 [110, 121] = [Some 110, Some (1738 / 15)]"
    "ewm_mean 30 [110, 121] = [Some 110, Some (6941 / 60)]"
    "ewm_mean 100 [110, 121] = [Some 110, Some (23111 / 200)]"
    by (simp_all add: ewm_mean_def)
  note inst = moving_averages_over_close
    [where n = 1 and L = "sample_libs two_rows" and t = "''AAPL''" and now = 0
       and df = two_rows and w = fresh and df' = two_rows_alt]
  show ?thesis
    using dl len cols(1,2) inst
    by (simp add: cols sma ema df_close_scale dec_windows)
qed

section \<open>The ticker list at startup\<close>

lemma str_of_strings: "list_all is_str l \<Longrightarrow> map (\<lambda>v. PStr (py_str v)) l = l"
proof (induction l)
  case Nil
  show ?case by simp
next
  case (Cons v l)
  then show ?case by (cases v) simp_all
qed

lemma app_startup_loaded:
  "l \<noteq> [] \<Longrightarrow> started_with (app_startup (Some l) r) = Inr l"
  by (simp add: started_with_def app_startup_def choice_def)

lemma st2_startup_loaded: "started_with (st2_startup (Some l) r) = Inr l"
  by (simp add: started_with_def st2_startup_def choice_def st2_start_tickers_def)

lemma app_startup_missing: "started_with (app_startup None r) = Inr default_tickers"
  by (simp add: started_with_def app_startup_def choice_def print_def default_tickers_def)

text \<open>
  Claim C4 says that at every start the ticker list is loaded from tickers.pickle, is
  not empty and holds strings only. The code decides none of the three: without the
  file app.py starts on its default list; st2.py starts on an empty pickled list; and
  a pickled list with the entry 7 is taken as it is.
\<close>

theorem startup_list_unchecked:
  "started_with (app_startup None 0) = Inr default_tickers \<and>
   started_with (st2_startup (Some []) 0) = Inr [] \<and>
   started_with (st2_startup (Some [PInt 7]) 0) = Inr [PInt 7] \<and>
   \<not> is_str (PInt 7)"
  by (simp add: app_startup_missing st2_startup_loaded)

text \<open>
  Claim C4, amended. At a start the ticker list is the list unpickled from
  tickers.pickle when the file is there; when it is missing, app.py takes its five
  default tickers, all strings, and st2.py does not start. Neither program checks the
  list: app.py does not start on an empty list, so the list of a started app.py is
  not empty; st2.py starts on any list. In every start that succeeds the ticker
  dropdown has one option for each entry, in order, with \<^verbatim>\<open>str(entry)\<close> as label and
  value. When the file holds a non-empty list of strings, both programs start with
  that list, and the option labels are the entries themselves.
\<close>

theorem startup_ticker_list:
  "(app_startup f r = Inr (w, u) \<longrightarrow>
      ticker_list w = (case f of None \<Rightarrow> default_tickers | Some l \<Rightarrow> l) \<and>
      ticker_list w \<noteq> [] \<and>
      stock_options u = map (\<lambda>v. (py_str v, py_str v)) (ticker_list w)) \<and>
   (st2_startup f r = Inr (w', u') \<longrightarrow>
      f = Some (ticker_list w') \<and>
      stock_options u' = map (\<lambda>v. (py_str v, py_str v)) (ticker_list w')) \<and>
   (f = None \<longrightarrow>
      started_with (app_startup f r) = Inr default_tickers \<and>
      list_all is_str default_tickers \<and>
      st2_startup f r = Inl FileNotFoundError) \<and>
   (f = Some [] \<longrightarrow> app_startup f r = Inl IndexError) \<and>
   (f = Some l \<and> l \<noteq> [] \<and> list_all is_str l \<longrightarrow>
      started_with (app_startup f r) = Inr l \<and>
      started_with (st2_startup f r) = Inr l \<and>
      map (\<lambda>v. PStr (py_str v)) l = l)"
proof (intro conjI impI)
  assume a: "app_startup f r = Inr (w, u)"
  show "ticker_list w = (case f of None \<Rightarrow> default_tickers | Some l \<Rightarrow> l)"
    by (rule app_startup_Inr(1) [OF a])
  show "ticker_list w \<noteq> []"
    by (rule app_startup_Inr(2) [OF a])
  show "stock_options u = map (\<lambda>v. (py_str v, py_str v)) (ticker_list w)"
    by (rule app_startup_Inr(4) [OF a])
next
  assume s: "st2_startup f r = Inr (w', u')"
  show "f = Some (ticker_list w')"
    by (rule st2_startup_Inr(1) [OF s])
  show "stock_options u' = map (\<lambda>v. (py_str v, py_str v)) (ticker_list w')"
    by (rule st2_startup_Inr(3) [OF s])
next
  assume "f = None"
  then show "started_with (app_startup f r) = Inr default_tickers"
    by (simp add: app_startup_missing)
  show "list_all is_str default_tickers"
    by (simp add: default_tickers_def)
  from \<open>f = None\<close> show "st2_startup f r = Inl FileNotFoundError"
    by (simp add: st2_startup_def)
next
  assume "f = Some []"
  then show "app_startup f r = Inl IndexError"
    by (simp add: app_startup_def choice_def)
next
  assume l: "f = Some l \<and> l \<noteq> [] \<and> list_all is_str l"
  then show "started_with (app_startup f r) = Inr l"
    by (simp add: app_startup_loaded)
  from l show "started_with (st2_startup f r) = Inr l"
    by (simp add: st2_startup_loaded)
  from l show "map (\<lambda>v. PStr (py_str v)) l = l"
    by (simp add: str_of_strings)
qed

theorem startup_ticker_list_witness:
  "app_startup (Some [PStr ''IBM'']) 0 = Inr (fresh\<lparr>ticker_list := [PStr ''IBM'']\<rparr>, sample_ui_app) \<and>
   st2_startup (Some [PStr ''IBM'']) 0 = Inr (fresh\<lparr>ticker_list := [PStr ''IBM'']\<rparr>, sample_ui_st2) \<and>
   [PStr ''IBM''] \<noteq> [] \<and> list_all is_str [PStr ''IBM''] \<and>
   stock_options sample_ui_app = [(''IBM'', ''IBM'')] \<and>
   stock_options sample_ui_st2 = [(''IBM'', ''IBM'')] \<and>
   started_with (app_startup (Some [PStr ''IBM'']) 0) = Inr [PStr ''IBM''] \<and>
   started_with (st2_startup (Some [PStr ''IBM'']) 0) = Inr [PStr ''IBM''] \<and>
   started_with (app_startup None 0) = Inr default_tickers \<and>
   st2_startup None 0 = Inl FileNotFoundError \<and>
   app_startup (Some []) 0 = Inl IndexError"
proof -
  have a: "app_startup (Some [PStr ''IBM'']) 0
      = Inr (fresh\<lparr>ticker_list := [PStr ''IBM'']\<rparr>, sample_ui_app)"
    by (simp add: app_startup_def choice_def fresh_def sample_ui_app_def)
  have s: "st2_startup (Some [PStr ''IBM'']) 0
      = Inr (fresh\<lparr>ticker_list := [PStr ''IBM'']\<rparr>, sample_ui_st2)"
    by (simp add: st2_startup_def choice_def fresh_def sample_ui_st2_def st2_start_tickers_def)
  note loaded = startup_ticker_list
    [where f = "Some [PStr ''IBM'']" and r = 0 and l = "[PStr ''IBM'']"
       and w = "fresh\<lparr>ticker_list := [PStr ''IBM'']\<rparr>" and u = sample_ui_app
       and w' = "fresh\<lparr>ticker_list := [PStr ''IBM'']\<rparr>" and u' = sample_ui_st2]
  note missing = startup_ticker_list [where f = None and r = 0]
  note empty = startup_ticker_list [where f = "Some []" and r = 0]
  from a s loaded missing empty show ?thesis
    by (simp add: fresh_def)
qed

section \<open>The buy confirmation of st2.py\<close>

lemma round_half_even_close: "\<bar>of_int (round_half_even x) - x\<bar> \<le> 1 / 2"
proof -
  have "of_int \<lfloor>x\<rfloor> \<le> x" "x < of_int \<lfloor>x\<rfloor> + 1"
    by linarith+
  then show ?thesis
    by (auto simp: round_half_even_def Let_def)
qed

lemma round_half_even_nonneg: "0 \<le> x \<Longrightarrow> 0 \<le> round_half_even x"
proof -
  assume "0 \<le> x"
  then have "0 \<le> \<lfloor>x\<rfloor>" by simp
  then show ?thesis by (auto simp: round_half_even_def Let_def)
qed

lemma hundredths_close:
  fixes rc y ri r :: real
  assumes "\<bar>rc - y * 100\<bar> \<le> 1 / 2" "100 * ri + r = rc"
  shows "\<bar>ri + r / 100 - y\<bar> \<le> 1 / 200"
proof -
  have eq: "ri + r / 100 - y = (rc - y * 100) / 100"
    unfolding assms(2) [symmetric] by (simp add: field_simps)
  have "\<bar>(rc - y * 100) / 100\<bar> = \<bar>rc - y * 100\<bar> / 100"
    by simp
  with assms(1) have "\<bar>(rc - y * 100) / 100\<bar> \<le> 1 / 200"
    by simp
  then show ?thesis
    by (simp only: eq)
qed

text \<open>
  What \<open>fmt2\<close> prints: an optional sign, the decimal digits of a whole part, a point
  and exactly two digits; the number printed is within half a hundredth of the value.
\<close>

lemma fmt2_two_decimals:
  "\<exists>sg i a b. fmt2 x = sg @ dec i @ ''.'' @ [digit a, digit b] \<and> a < 10 \<and> b < 10 \<and>
     (sg = [] \<or> sg = ''-'') \<and>
     \<bar>real i + real (10 * a + b) / 100 - \<bar>x\<bar>\<bar> \<le> 1 / 200"
proof -
  define c where "c = nat (round_half_even (\<bar>x\<bar> * 100))"
  define sg where "sg = (if x < 0 then ''-'' else [])"
  define i where "i = c div 100"
  define a where "a = c mod 100 div 10"
  define b where "b = c mod 10"
  have shape: "fmt2 x = sg @ dec i @ ''.'' @ [digit a, digit b]"
    by (simp add: fmt2_def c_def sg_def i_def a_def b_def Let_def)
  have "0 \<le> round_half_even (\<bar>x\<bar> * 100)"
    by (rule round_half_even_nonneg) simp
  then have "real c = of_int (round_half_even (\<bar>x\<bar> * 100))"
    by (simp add: c_def)
  with round_half_even_close [of "\<bar>x\<bar> * 100"]
  have close: "\<bar>real c - \<bar>x\<bar> * 100\<bar> \<le> 1 / 2"
    by simp
  have "c mod 100 mod 10 = c mod 10"
    by (simp add: mod_mod_cancel)
  with mult_div_mod_eq [of 10 "c mod 100"] have "10 * a + b = c mod 100"
    by (simp add: a_def b_def)
  with mult_div_mod_eq [of 100 c] have "100 * i + (10 * a + b) = c"
    by (simp add: i_def)
  then have "real (100 * i + (10 * a + b)) = real c"
    by (rule arg_cong)
  then have parts: "100 * real i + real (10 * a + b) = real c"
    by (simp only: of_nat_add of_nat_mult of_nat_numeral)
  have near: "\<bar>real i + real (10 * a + b) / 100 - \<bar>x\<bar>\<bar> \<le> 1 / 200"
    by (rule hundredths_close [OF close parts])
  have "a < 10" "b < 10"
    by (simp_all add: a_def b_def div_less_iff_less_mult)
  moreover have "sg = [] \<or> sg = ''-''"
    by (simp add: sg_def)
  ultimately show ?thesis
    using shape near by blast
qed

text \<open>Powers of two and the binary exponent.\<close>

lemma pow2_powr: "pow2 e = 2 powr (of_int e)"
proof (cases "0 \<le> e")
  case True
  then have "2 powr (of_int e) = (2::real) powr (real (nat e))"
    by simp
  also have "\<dots> = 2 ^ nat e"
    by (rule powr_realpow) simp
  finally show ?thesis
    using True by (simp add: pow2_def)
next
  case False
  then have "2 powr (of_int e) = (2::real) powr (- real (nat (- e)))"
    by simp
  also have "\<dots> = 1 / 2 powr (real (nat (- e)))"
    by (simp add: powr_minus divide_inverse)
  also have "\<dots> = 1 / 2 ^ nat (- e)"
    by (simp add: powr_realpow)
  finally show ?thesis
    using False by (simp add: pow2_def)
qed

lemma pow2_pos: "0 < pow2 e"
  by (simp add: pow2_powr)

lemma pow2_Suc: "pow2 (e + 1) = 2 * pow2 e"
  by (simp add: pow2_powr powr_add)

lemma pow2_pred: "pow2 (e - 1) = pow2 e / 2"
  using pow2_Suc [of "e - 1"] by simp

lemma pow2_less: "pow2 a < pow2 b \<Longrightarrow> a < b"
  by (simp add: pow2_powr)

lemma pow2_mono: "a \<le> b \<Longrightarrow> pow2 a \<le> pow2 b"
  by (simp add: pow2_powr)

lemma pow2_shift: "pow2 (e - 52) = pow2 e / 2 ^ 52"
proof -
  have "pow2 (e - 52) = 2 powr (of_int e) / 2 powr 52"
    by (simp add: pow2_powr powr_diff)
  also have "(2::real) powr 52 = 2 ^ 52"
    by simp
  finally show ?thesis
    by (simp add: pow2_powr)
qed

lemma ilog2_bounds: "0 < x \<Longrightarrow> pow2 (ilog2 x) \<le> x \<and> x < pow2 (ilog2 x + 1)"
proof (induction x rule: ilog2.induct)
  case (1 x)
  show ?case
  proof (cases "2 \<le> x")
    case True
    define k where "k = ilog2 (x / 2)"
    from True "1.prems" have "pow2 k \<le> x / 2 \<and> x / 2 < pow2 (k + 1)"
      unfolding k_def by (intro "1.IH"(1)) simp_all
    then have "2 * pow2 k \<le> x" "x < 2 * pow2 (k + 1)"
      by simp_all
    then have "pow2 (k + 1) \<le> x" "x < pow2 (k + 1 + 1)"
      by (simp_all only: pow2_Suc)
    moreover from True "1.prems" have "ilog2 x = k + 1"
      unfolding k_def by (subst ilog2.simps) simp
    ultimately show ?thesis
      by (simp only:)
  next
    case False
    show ?thesis
    proof (cases "x < 1")
      case True
      define k where "k = ilog2 (x * 2)"
      from True False "1.prems" have "pow2 k \<le> x * 2 \<and> x * 2 < pow2 (k + 1)"
        unfolding k_def by (intro "1.IH"(2)) simp_all
      then have "pow2 k / 2 \<le> x" "x < pow2 k"
        by (simp_all add: pow2_Suc)
      then have "pow2 (k - 1) \<le> x" "x < pow2 (k - 1 + 1)"
        by (simp_all add: pow2_pred)
      moreover from True False "1.prems" have "ilog2 x = k - 1"
        unfolding k_def by (subst ilog2.simps) simp
      ultimately show ?thesis
        by (simp only:)
    next
      case nlt: False
      with False "1.prems" have "ilog2 x = 0"
        by (subst ilog2.simps) simp
      with nlt False show ?thesis
        by (simp add: pow2_def)
    qed
  qed
qed

text \<open>Rounding moves a real by half a quantum at most.\<close>

lemma rounded_close: "\<bar>rounded y - \<bar>y\<bar>\<bar> \<le> pow2 (max (ilog2 \<bar>y\<bar>) (- 1022) - 52) / 2"
proof -
  define q where "q = pow2 (max (ilog2 \<bar>y\<bar>) (- 1022) - 52)"
  define m where "m = round_half_even (\<bar>y\<bar> / q)"
  have q: "0 < q"
    by (simp add: q_def pow2_pos)
  have u: "rounded y = of_int m * q"
    by (simp add: rounded_def Let_def q_def m_def)
  have "\<bar>of_int m - \<bar>y\<bar> / q\<bar> * q \<le> 1 / 2 * q"
    unfolding m_def using round_half_even_close [of "\<bar>y\<bar> / q"] q
    by (intro mult_right_mono) simp_all
  moreover have "\<bar>of_int m - \<bar>y\<bar> / q\<bar> * q = \<bar>of_int m * q - \<bar>y\<bar>\<bar>"
  proof -
    have "\<bar>of_int m - \<bar>y\<bar> / q\<bar> * q = \<bar>(of_int m - \<bar>y\<bar> / q) * q\<bar>"
      using q by (simp add: abs_mult)
    also have "(of_int m - \<bar>y\<bar> / q) * q = of_int m * q - \<bar>y\<bar>"
      using q by (simp add: algebra_simps)
    finally show ?thesis .
  qed
  ultimately show ?thesis
    by (simp add: u q_def)
qed

lemma rounded_relative:
  assumes "pow2 (- 1022) \<le> \<bar>y\<bar>"
  shows "\<bar>rounded y - \<bar>y\<bar>\<bar> \<le> \<bar>y\<bar> / 2 ^ 53"
proof -
  from assms have pos: "0 < \<bar>y\<bar>"
    using pow2_pos [of "- 1022"] by linarith
  from ilog2_bounds [OF pos] assms have "pow2 (- 1022) < pow2 (ilog2 \<bar>y\<bar> + 1)"
    by linarith
  then have "- 1022 \<le> ilog2 \<bar>y\<bar>"
    using pow2_less [of "- 1022" "ilog2 \<bar>y\<bar> + 1"] by simp
  then have "max (ilog2 \<bar>y\<bar>) (- 1022) = ilog2 \<bar>y\<bar>"
    by simp
  with rounded_close [of y] have "\<bar>rounded y - \<bar>y\<bar>\<bar> \<le> pow2 (ilog2 \<bar>y\<bar>) / 2 ^ 52 / 2"
    by (simp add: pow2_shift)
  also have "\<dots> \<le> \<bar>y\<bar> / 2 ^ 52 / 2"
    using ilog2_bounds [OF pos] by (simp add: divide_right_mono)
  finally show ?thesis
    by simp
qed

text \<open>A real of normal size, up to one and a half times \<open>pow2 1023\<close>, has a finite value.\<close>

lemma round64_normal:
  assumes "pow2 (- 1022) \<le> \<bar>y\<bar>" "\<bar>y\<bar> \<le> pow2 1023 * (3 / 2)"
  shows "round64 y = Finite (if y < 0 then - rounded y else rounded y)"
proof -
  from assms(1) have pos: "0 < \<bar>y\<bar>"
    using pow2_pos [of "- 1022"] by linarith
  have small: "\<bar>y\<bar> / 2 ^ 53 \<le> \<bar>y\<bar> / 4"
    by (intro divide_left_mono) simp_all
  from rounded_relative [OF assms(1)] small
  have lo: "\<bar>y\<bar> * (3 / 4) \<le> rounded y" and hi: "rounded y \<le> \<bar>y\<bar> * (5 / 4)"
    by linarith+
  from lo pos have nz: "rounded y \<noteq> 0"
    by auto
  have "pow2 1024 = 2 * pow2 1023"
    using pow2_Suc [of 1023] by simp
  moreover have "0 < pow2 1023"
    by (rule pow2_pos)
  ultimately have "rounded y < pow2 1024"
    using hi assms(2) by linarith
  with nz show ?thesis
    by (simp add: round64_def)
qed

lemma float_1_1_facts:
  "\<bar>float_1_1 - 11 / 10\<bar> = 1 / (5 * 2 ^ 51)" "1 \<le> float_1_1" "float_1_1 \<le> 6 / 5"
  by (simp_all add: float_1_1_def)

text \<open>The literal, and the product of line 225 at two prices, as Python computes them.\<close>

lemma float_1_1_literal: "round64 (11 / 10) = Finite float_1_1"
  by (simp add: round64_def rounded_def ilog2.simps pow2_def round_half_even_def float_1_1_def
      Let_def)

lemma float_mul_examples:
  "float_mul (Finite (3 / 4)) float_1_1 = Finite (7430939385161319 / 2 ^ 53)"
  "float_mul (Finite 100) float_1_1 = Finite (7740561859543041 / 2 ^ 46)"
  by (simp_all add: round64_def rounded_def ilog2.simps pow2_def round_half_even_def
      float_1_1_def Let_def)

lemma buy_price_examples:
  "fmt2f (float_mul (Finite (3 / 4)) float_1_1) = ''0.83''"
  "fmt2f (float_mul (Finite 100) float_1_1) = ''110.00''"
  "fmt2f (float_mul (Finite (5404319552844595 / 2 ^ 55)) float_1_1) = ''0.17''"
proof -
  have digits: "dec 0 = ''0''" "dec 110 = ''110''"
    by code_simp+
  have "float_mul (Finite (5404319552844595 / 2 ^ 55)) float_1_1
      = Finite (5944751508129055 / 2 ^ 55)"
    by (simp add: round64_def rounded_def ilog2.simps pow2_def round_half_even_def
        float_1_1_def Let_def)
  then show "fmt2f (float_mul (Finite (5404319552844595 / 2 ^ 55)) float_1_1) = ''0.17''"
    by (simp add: fmt2_def round_half_even_def digits digit_def)
  show "fmt2f (float_mul (Finite (3 / 4)) float_1_1) = ''0.83''"
    by (subst float_mul_examples) (simp add: fmt2_def round_half_even_def digits digit_def)
  show "fmt2f (float_mul (Finite 100) float_1_1) = ''110.00''"
    by (subst float_mul_examples) (simp add: fmt2_def round_half_even_def digits digit_def)
qed

text \<open>
  The binary64 product of a normal price with the literal 1.1 is finite and differs
  from the product of the reals, the price times 11/10, by the fraction \<open>1 / 2 ^ 52\<close> of
  the price at most.
\<close>

lemma float_mul_1_1_close:
  assumes "pow2 (- 1022) \<le> \<bar>x\<bar>" "\<bar>x\<bar> \<le> pow2 1023"
  shows "\<exists>v. float_mul (Finite x) float_1_1 = Finite v \<and> \<bar>v - x * (11 / 10)\<bar> \<le> \<bar>x\<bar> / 2 ^ 52"
proof -
  define y where "y = x * float_1_1"
  define v where "v = (if y < 0 then - rounded y else rounded y)"
  have size: "\<bar>y\<bar> = \<bar>x\<bar> * float_1_1"
    using float_1_1_facts(2) by (simp add: y_def abs_mult)
  have "\<bar>x\<bar> * 1 \<le> \<bar>x\<bar> * float_1_1"
    by (intro mult_left_mono float_1_1_facts(2)) simp
  with assms(1) have normal: "pow2 (- 1022) \<le> \<bar>y\<bar>"
    by (simp add: size)
  have up: "\<bar>y\<bar> \<le> \<bar>x\<bar> * (6 / 5)"
    unfolding size by (intro mult_left_mono float_1_1_facts(3)) simp
  have "\<bar>x\<bar> * (6 / 5) \<le> pow2 1023 * (6 / 5)"
    using assms(2) by simp
  moreover have "0 < pow2 1023"
    by (rule pow2_pos)
  ultimately have below: "\<bar>y\<bar> \<le> pow2 1023 * (3 / 2)"
    using up by linarith
  have fin: "float_mul (Finite x) float_1_1 = Finite v"
    using round64_normal [OF normal below] by (simp add: y_def v_def)
  have "\<bar>v - y\<bar> = \<bar>rounded y - \<bar>y\<bar>\<bar>"
    by (simp add: v_def abs_if)
  with rounded_relative [OF normal] have "\<bar>v - y\<bar> \<le> \<bar>y\<bar> / 2 ^ 53"
    by simp
  also have "\<dots> \<le> \<bar>x\<bar> * (6 / 5) / 2 ^ 53"
    using up by (intro divide_right_mono) simp_all
  finally have a: "\<bar>v - y\<bar> \<le> \<bar>x\<bar> * (6 / 5) / 2 ^ 53" .
  have "y - x * (11 / 10) = x * (float_1_1 - 11 / 10)"
    by (simp add: y_def algebra_simps)
  then have b: "\<bar>y - x * (11 / 10)\<bar> = \<bar>x\<bar> * (1 / (5 * 2 ^ 51))"
    by (simp only: abs_mult float_1_1_facts(1))
  have "\<bar>v - x * (11 / 10)\<bar> \<le> \<bar>v - y\<bar> + \<bar>y - x * (11 / 10)\<bar>"
    by linarith
  also have "\<dots> \<le> \<bar>x\<bar> * (6 / 5) / 2 ^ 53 + \<bar>x\<bar> * (1 / (5 * 2 ^ 51))"
    using a b by linarith
  also have "\<dots> = \<bar>x\<bar> / 2 ^ 52"
    by simp
  finally show ?thesis
    using fin by blast
qed

lemma toggle_modal_opens:
  assumes "truthy n1 \<or> truthy n2" "get_live_price L s = Inr p"
  shows "fst (toggle_modal L n1 n2 False s w) =
     Inr (True, ''Do you want to buy '' @ s @ '' at $'' @ fmt2f (float_mul p float_1_1) @ ''?'')"
  using assms by (simp add: toggle_modal_def)

lemma toggle_modal_closes:
  assumes "truthy n1 \<or> truthy n2"
  shows "toggle_modal L n1 n2 True s w = (Inr (False, []), w)"
  using assms by (simp add: toggle_modal_def)

text \<open>
  Claim C5. In st2.py, after a click of the buy button (its counter \<open>k\<close> is 1 or more)
  \<open>toggle_modal\<close> opens a closed modal, and the body shows the fetched live price of
  the selected ticker multiplied by 1.1 and formatted by \<^verbatim>\<open>:.2f\<close>, the product being the
  binary64 product of Python. For a price \<open>x\<close> of normal size the product is finite and
  within \<open>\<bar>x\<bar> / 2 ^ 52\<close> of \<open>x\<close> times 11/10, and it is printed with two digits after
  the point, the number printed being within half a cent of the product. For an open
  modal the callback closes the modal with an empty body, and asks for no price.
\<close>

theorem toggle_modal_buy:
  "1 \<le> k \<longrightarrow>
     (get_live_price L s = Inr p \<longrightarrow>
        fst (toggle_modal L (Some k) n2 False s w) =
          Inr (True, ''Do you want to buy '' @ s @ '' at $''
                       @ fmt2f (float_mul p float_1_1) @ ''?'') \<and>
        (\<forall>x. p = Finite x \<and> pow2 (- 1022) \<le> \<bar>x\<bar> \<and> \<bar>x\<bar> \<le> pow2 1023 \<longrightarrow>
           (\<exists>v sg i a b.
              float_mul p float_1_1 = Finite v \<and>
              \<bar>v - x * (11 / 10)\<bar> \<le> \<bar>x\<bar> / 2 ^ 52 \<and>
              fmt2f (float_mul p float_1_1) = sg @ dec i @ ''.'' @ [digit a, digit b] \<and>
              a < 10 \<and> b < 10 \<and> (sg = [] \<or> sg = ''-'') \<and>
              \<bar>real i + real (10 * a + b) / 100 - \<bar>v\<bar>\<bar> \<le> 1 / 200))) \<and>
     toggle_modal L (Some k) n2 True s w = (Inr (False, []), w)"
proof (intro impI conjI allI)
  assume k: "1 \<le> k"
  then have click: "truthy (Some k) \<or> truthy n2" by simp
  show "toggle_modal L (Some k) n2 True s w = (Inr (False, []), w)"
    by (rule toggle_modal_closes [OF click])
  assume p: "get_live_price L s = Inr p"
  show "fst (toggle_modal L (Some k) n2 False s w) =
          Inr (True, ''Do you want to buy '' @ s @ '' at $''
                       @ fmt2f (float_mul p float_1_1) @ ''?'')"
    by (rule toggle_modal_opens [OF click p])
  fix x
  assume x: "p = Finite x \<and> pow2 (- 1022) \<le> \<bar>x\<bar> \<and> \<bar>x\<bar> \<le> pow2 1023"
  then obtain v where v: "float_mul p float_1_1 = Finite v"
    and close: "\<bar>v - x * (11 / 10)\<bar> \<le> \<bar>x\<bar> / 2 ^ 52"
    using float_mul_1_1_close [of x] by auto
  from fmt2_two_decimals [of v] obtain sg i a b where
    "fmt2 v = sg @ dec i @ ''.'' @ [digit a, digit b]" "a < 10" "b < 10"
    "sg = [] \<or> sg = ''-''" "\<bar>real i + real (10 * a + b) / 100 - \<bar>v\<bar>\<bar> \<le> 1 / 200"
    by blast
  with v close show "\<exists>v sg i a b.
              float_mul p float_1_1 = Finite v \<and>
              \<bar>v - x * (11 / 10)\<bar> \<le> \<bar>x\<bar> / 2 ^ 52 \<and>
              fmt2f (float_mul p float_1_1) = sg @ dec i @ ''.'' @ [digit a, digit b] \<and>
              a < 10 \<and> b < 10 \<and> (sg = [] \<or> sg = ''-'') \<and>
              \<bar>real i + real (10 * a + b) / 100 - \<bar>v\<bar>\<bar> \<le> 1 / 200"
    by (intro exI [of _ v] exI [of _ sg] exI [of _ i] exI [of _ a] exI [of _ b]) simp
qed

theorem toggle_modal_buy_witness:
  "(1::int) \<le> 1 \<and> get_live_price (sample_libs []) ''AAPL'' = Inr (Finite (3 / 4)) \<and>
   pow2 (- 1022) \<le> \<bar>3 / 4\<bar> \<and> \<bar>3 / 4\<bar> \<le> pow2 1023 \<and>
   float_mul (Finite (3 / 4)) float_1_1 = Finite (7430939385161319 / 2 ^ 53) \<and>
   fst (toggle_modal (sample_libs []) (Some 1) None False ''AAPL'' fresh) =
     Inr (True, ''Do you want to buy AAPL at $0.83?'') \<and>
   toggle_modal (sample_libs []) (Some 1) None True ''AAPL'' fresh = (Inr (False, []), fresh)"
proof -
  have p: "get_live_price (sample_libs []) ''AAPL'' = Inr (Finite (3 / 4))"
    by (simp add: sample_libs_def)
  have "pow2 (- 1022) \<le> pow2 (- 1)" "pow2 0 \<le> pow2 1023"
    by (rule pow2_mono, simp)+
  then have size: "pow2 (- 1022) \<le> \<bar>3 / 4\<bar>" "\<bar>3 / 4\<bar> \<le> pow2 1023"
    by (simp_all add: pow2_def)
  have "round_half_even (7430939385161319 / 2 ^ 53 * 100) = 83"
    by (simp add: round_half_even_def)
  moreover have "dec 0 = ''0''"
    by code_simp
  ultimately have shown: "fmt2 (7430939385161319 / 2 ^ 53) = ''0.83''"
    by (simp add: fmt2_def digit_def)
  from toggle_modal_buy [of 1 "sample_libs []" "''AAPL''" "Finite (3 / 4)" None fresh]
    p size shown float_mul_examples(1)
  show ?thesis by simp
qed

section \<open>The shape of the plot callback\<close>

lemma app_fetch_log:
  "fetch_log (snd (app_graph_generator L now n t c w)) =
     fetch_log w @ (if n = 0 then [] else [(t, now - 5 * 365, now)])"
  by (simp add: app_graph_generator_def fetch_def print_def Let_def split: sum.splits)

lemma st2_fetch_log:
  "fetch_log (snd (st2_graph_generator L now n t c w)) =
     fetch_log w @ (if 1 \<le> n then [(t, now - 5 * 365, now)] else [])"
  by (simp add: st2_graph_generator_def fetch_def Let_def)

lemma app_stateless:
  "fst (app_graph_generator L now n t c w) = fst (app_graph_generator L now n t c w')"
  by (simp add: app_graph_generator_def fetch_def Let_def split: sum.splits)

lemma st2_stateless:
  "fst (st2_graph_generator L now n t c w) = fst (st2_graph_generator L now n t c w')"
  by (simp add: st2_graph_generator_def fetch_def Let_def)

lemma app_provider_raises:
  "n \<noteq> 0 \<Longrightarrow> download L t (now - 5 * 365) now = Inl e \<Longrightarrow>
   fst (app_graph_generator L now n t c w) = Inl e"
  by (simp add: app_graph_generator_def fetch_def Let_def)

lemma st2_provider_raises:
  "1 \<le> n \<Longrightarrow> download L t (now - 5 * 365) now = Inl e \<Longrightarrow>
   fst (st2_graph_generator L now n t c w) = Inl e"
  by (simp add: st2_graph_generator_def fetch_def Let_def)

lemma st2_plot_run:
  "1 \<le> n \<Longrightarrow> download L t (now - 5 * 365) now = Inr df \<Longrightarrow>
   fst (st2_graph_generator L now n t c w) =
     bind_r (st2_chart_traces L c (Some (scale_close df))) (\<lambda>ts.
     bind_r (st2_live_price t (Some (scale_close df))) (\<lambda>live.
       Inr (Figure ts (st2_layout c), live)))"
  by (simp add: st2_graph_generator_def fetch_def Let_def)

lemma no_branch:
  "c \<notin> snd ` set app_chart_options \<Longrightarrow>
   app_chart_traces L c df = Inr [] \<and> st2_chart_traces L c dfo = Inr []"
  by (simp add: app_chart_options_def app_chart_traces_def st2_chart_traces_def)

text \<open>
  Claim C6 says that the callback is one dispatch on the chart type, which for every
  input runs the branch of the chart type and no error-checking branch. In app.py, at
  one click, the chart type Line and a provider that returns an empty frame, the
  branch of Line is not run: the test of line 127 prints an error line and returns
  two empty figures.
\<close>

theorem app_empty_frame_guard:
  "app_graph_generator (sample_libs []) 0 1 ''AAPL'' ''Line'' fresh =
     (Inr (EmptyDict, EmptyDict),
      fresh\<lparr>fetch_log := [(''AAPL'', - 1825, 0)],
            stdout := [Text ''Fetching data for AAPL...'',
                       Text ''Error: No data returned for AAPL.'']\<rparr>) \<and>
   app_chart_traces (sample_libs []) ''Line'' [] = Inr [Scatter [] [] ''Close'' [(''fill'', ''tozeroy'')]]"
  by (simp add: app_graph_generator_def fetch_def print_def sample_libs_def fresh_def Let_def
      app_chart_traces_def df_index_def df_close_def)

text \<open>
  Claim C6, amended. The chart of \<open>graph_generator\<close> is built by one dispatch on the
  chart type, which runs the branch of the chart type, and no branch for a chart type
  that is not in the dropdown. There is no exception handler, no retry and no state:
  an exception of the data provider is the exception of the callback, a callback
  calls the provider once at most, and its figures do not depend on the process
  state. In app.py two tests stand before the dispatch and return two empty figures:
  \<open>n_clicks = 0\<close>, and an empty fetched frame; with a frame that is not empty the
  chart is the one of the dispatch. In st2.py the dispatch and the live-price figure
  are run on every fetched frame.
\<close>

theorem dispatch_behind_guards:
  "app_graph_generator L now 0 t c w = (Inr (EmptyDict, EmptyDict), w) \<and>
   (n \<noteq> 0 \<and> download L t (now - 5 * 365) now = Inr [] \<longrightarrow>
      fst (app_graph_generator L now n t c w) = Inr (EmptyDict, EmptyDict)) \<and>
   (n \<noteq> 0 \<and> download L t (now - 5 * 365) now = Inr df \<and> df \<noteq> [] \<longrightarrow>
      (\<exists>live. app_live_price_fig t df = Inr live \<and>
         fst (app_graph_generator L now n t c w) =
           bind_r (app_chart_traces L c df) (\<lambda>ts. Inr (Figure ts (app_layout c), live)))) \<and>
   (1 \<le> n \<and> download L t (now - 5 * 365) now = Inr df \<longrightarrow>
      fst (st2_graph_generator L now n t c w) =
        bind_r (st2_chart_traces L c (Some (scale_close df))) (\<lambda>ts.
        bind_r (st2_live_price t (Some (scale_close df))) (\<lambda>live.
          Inr (Figure ts (st2_layout c), live)))) \<and>
   (c \<notin> snd ` set app_chart_options \<longrightarrow>
      app_chart_traces L c df = Inr [] \<and> st2_chart_traces L c (Some df) = Inr []) \<and>
   (download L t (now - 5 * 365) now = Inl e \<longrightarrow>
      (n \<noteq> 0 \<longrightarrow> fst (app_graph_generator L now n t c w) = Inl e) \<and>
      (1 \<le> n \<longrightarrow> fst (st2_graph_generator L now n t c w) = Inl e)) \<and>
   fetch_log (snd (app_graph_generator L now n t c w)) =
     fetch_log w @ (if n = 0 then [] else [(t, now - 5 * 365, now)]) \<and>
   fetch_log (snd (st2_graph_generator L now n t c w)) =
     fetch_log w @ (if 1 \<le> n then [(t, now - 5 * 365, now)] else []) \<and>
   fst (app_graph_generator L now n t c w) = fst (app_graph_generator L now n t c w') \<and>
   fst (st2_graph_generator L now n t c w) = fst (st2_graph_generator L now n t c w')"
proof (intro conjI impI)
  show "app_graph_generator L now 0 t c w = (Inr (EmptyDict, EmptyDict), w)"
    by (simp add: app_graph_generator_def)
next
  assume "n \<noteq> 0 \<and> download L t (now - 5 * 365) now = Inr []"
  then show "fst (app_graph_generator L now n t c w) = Inr (EmptyDict, EmptyDict)"
    by (simp add: app_empty_fetch)
next
  assume "n \<noteq> 0 \<and> download L t (now - 5 * 365) now = Inr df \<and> df \<noteq> []"
  then show "\<exists>live. app_live_price_fig t df = Inr live \<and>
         fst (app_graph_generator L now n t c w) =
           bind_r (app_chart_traces L c df) (\<lambda>ts. Inr (Figure ts (app_layout c), live))"
    by (simp add: app_plot_run)
next
  assume "1 \<le> n \<and> download L t (now - 5 * 365) now = Inr df"
  then show "fst (st2_graph_generator L now n t c w) =
        bind_r (st2_chart_traces L c (Some (scale_close df))) (\<lambda>ts.
        bind_r (st2_live_price t (Some (scale_close df))) (\<lambda>live.
          Inr (Figure ts (st2_layout c), live)))"
    by (simp add: st2_plot_run)
next
  assume out: "c \<notin> snd ` set app_chart_options"
  from no_branch [OF out] show "app_chart_traces L c df = Inr []"
    by simp
  from no_branch [OF out] show "st2_chart_traces L c (Some df) = Inr []"
    by simp
next
  assume e: "download L t (now - 5 * 365) now = Inl e"
  show "fst (app_graph_generator L now n t c w) = Inl e" if "n \<noteq> 0"
    by (rule app_provider_raises [OF that e])
  show "fst (st2_graph_generator L now n t c w) = Inl e" if "1 \<le> n"
    by (rule st2_provider_raises [OF that e])
next
  show "fetch_log (snd (app_graph_generator L now n t c w)) =
     fetch_log w @ (if n = 0 then [] else [(t, now - 5 * 365, now)])"
    by (rule app_fetch_log)
  show "fetch_log (snd (st2_graph_generator L now n t c w)) =
     fetch_log w @ (if 1 \<le> n then [(t, now - 5 * 365, now)] else [])"
    by (rule st2_fetch_log)
  show "fst (app_graph_generator L now n t c w) = fst (app_graph_generator L now n t c w')"
    by (rule app_stateless)
  show "fst (st2_graph_generator L now n t c w) = fst (st2_graph_generator L now n t c w')"
    by (rule st2_stateless)
qed

theorem dispatch_behind_guards_witness:
  "download (sample_libs []) ''AAPL'' (0 - 5 * 365) 0 = Inr [] \<and>
   fst (app_graph_generator (sample_libs []) 0 1 ''AAPL'' ''Line'' fresh)
     = Inr (EmptyDict, EmptyDict) \<and>
   download (sample_libs two_rows) ''AAPL'' (0 - 5 * 365) 0 = Inr two_rows \<and>
   two_rows \<noteq> [] \<and>
   (\<exists>live. fst (app_graph_generator (sample_libs two_rows) 0 1 ''AAPL'' ''Line'' fresh) =
      Inr (Figure [Scatter [1, 2] [Some 100, Some 110] ''Close'' [(''fill'', ''tozeroy'')]]
             (app_layout ''Line''), live)) \<and>
   fst (st2_graph_generator (sample_libs two_rows) 0 1 ''AAPL'' ''Line'' fresh) =
      Inr (Figure [Scatter [1, 2] [Some 110, Some 121] ''close'' [(''fill'', ''tozeroy'')]]
             (st2_layout ''Line''),
           Figure [Indicator ''number+delta'' 121 ''$'' 110 ''AAPL Live Price'']
             st2_live_layout) \<and>
   ''Pie'' \<notin> snd ` set app_chart_options \<and>
   app_chart_traces (sample_libs two_rows) ''Pie'' two_rows = Inr [] \<and>
   st2_chart_traces (sample_libs two_rows) ''Pie'' (Some two_rows) = Inr [] \<and>
   download failing_libs ''AAPL'' (0 - 5 * 365) 0 = Inl (LibraryError ''no connection'') \<and>
   fst (app_graph_generator failing_libs 0 1 ''AAPL'' ''Line'' fresh)
     = Inl (LibraryError ''no connection'') \<and>
   fst (st2_graph_generator failing_libs 0 1 ''AAPL'' ''Line'' fresh)
     = Inl (LibraryError ''no connection'') \<and>
   fetch_log (snd (app_graph_generator (sample_libs two_rows) 0 1 ''AAPL'' ''Line'' fresh))
     = [(''AAPL'', - 1825, 0)]"
proof -
  have empty: "download (sample_libs []) ''AAPL'' (0 - 5 * 365) 0 = Inr []"
    by (simp add: sample_libs_def)
  have dl: "download (sample_libs two_rows) ''AAPL'' (0 - 5 * 365) 0 = Inr two_rows"
    by (simp add: sample_libs_def)
  have down: "download failing_libs ''AAPL'' (0 - 5 * 365) 0 = Inl (LibraryError ''no connection'')"
    by (simp add: failing_libs_def)
  have cols: "df_close two_rows = [100, 110]" "df_index two_rows = [1, 2]"
    "two_rows \<noteq> []" "length two_rows = 2"
    by (simp_all add: two_rows_def sample_row_def df_close_def df_index_def)
  have pie: "''Pie'' \<notin> snd ` set app_chart_options"
    by (simp add: app_chart_options_def)
  have live: "st2_live_price ''AAPL'' (Some (scale_close two_rows)) =
      Inr (Figure [Indicator ''number+delta'' 121 ''$'' 110 ''AAPL Live Price''] st2_live_layout)"
    by (simp add: st2_live_price_ok cols)
  have line: "app_chart_traces (sample_libs two_rows) ''Line'' two_rows =
      Inr [Scatter [1, 2] [Some 100, Some 110] ''Close'' [(''fill'', ''tozeroy'')]]"
    "st2_chart_traces (sample_libs two_rows) ''Line'' (Some (scale_close two_rows)) =
      Inr [Scatter [1, 2] [Some 110, Some 121] ''close'' [(''fill'', ''tozeroy'')]]"
    by (simp_all add: app_chart_traces_def st2_chart_traces_def cols df_close_scale)
  note on_empty = dispatch_behind_guards
    [where L = "sample_libs []" and now = 0 and n = 1 and t = "''AAPL''" and c = "''Line''"
       and w = fresh]
  note on_rows = dispatch_behind_guards
    [where L = "sample_libs two_rows" and now = 0 and n = 1 and t = "''AAPL''"
       and c = "''Line''" and w = fresh and df = two_rows]
  note on_pie = dispatch_behind_guards
    [where L = "sample_libs two_rows" and c = "''Pie''" and df = two_rows]
  note on_down = dispatch_behind_guards
    [where L = failing_libs and now = 0 and n = 1 and t = "''AAPL''" and c = "''Line''"
       and w = fresh and e = "LibraryError ''no connection''"]
  have 1: "fst (app_graph_generator (sample_libs []) 0 1 ''AAPL'' ''Line'' fresh)
     = Inr (EmptyDict, EmptyDict)"
    using on_empty empty by simp
  have 2: "\<exists>live. fst (app_graph_generator (sample_libs two_rows) 0 1 ''AAPL'' ''Line'' fresh) =
      Inr (Figure [Scatter [1, 2] [Some 100, Some 110] ''Close'' [(''fill'', ''tozeroy'')]]
             (app_layout ''Line''), live)"
    using on_rows dl cols(3) by (auto simp: line)
  have 3: "fst (st2_graph_generator (sample_libs two_rows) 0 1 ''AAPL'' ''Line'' fresh) =
      Inr (Figure [Scatter [1, 2] [Some 110, Some 121] ''close'' [(''fill'', ''tozeroy'')]]
             (st2_layout ''Line''),
           Figure [Indicator ''number+delta'' 121 ''$'' 110 ''AAPL Live Price'']
             st2_live_layout)"
    using on_rows dl by (simp add: line live)
  have 4: "app_chart_traces (sample_libs two_rows) ''Pie'' two_rows = Inr []"
    "st2_chart_traces (sample_libs two_rows) ''Pie'' (Some two_rows) = Inr []"
    using on_pie pie by simp_all
  have 5: "fst (app_graph_generator failing_libs 0 1 ''AAPL'' ''Line'' fresh)
     = Inl (LibraryError ''no connection'')"
    "fst (st2_graph_generator failing_libs 0 1 ''AAPL'' ''Line'' fresh)
     = Inl (LibraryError ''no connection'')"
    using on_down down by simp_all
  have 6: "fetch_log (snd (app_graph_generator (sample_libs two_rows) 0 1 ''AAPL'' ''Line'' fresh))
     = [(''AAPL'', - 1825, 0)]"
    using on_rows by (simp add: fresh_def)
  from empty dl down cols(3) pie 1 2 3 4 5 6 show ?thesis
    by simp
qed

section \<open>The ticker list of a running process\<close>

lemma app_graph_generator_frame:
  "ticker_list (snd (app_graph_generator L now n t c w)) = ticker_list w \<and>
   pickle_opens (snd (app_graph_generator L now n t c w)) = pickle_opens w"
  by (simp add: app_graph_generator_def fetch_def print_def Let_def split: sum.splits)

lemma st2_graph_generator_frame:
  "ticker_list (snd (st2_graph_generator L now n t c w)) = ticker_list w \<and>
   pickle_opens (snd (st2_graph_generator L now n t c w)) = pickle_opens w"
  by (simp add: st2_graph_generator_def fetch_def Let_def)

lemma toggle_modal_frame:
  "ticker_list (snd (toggle_modal L n1 n2 is_open s w)) = ticker_list w \<and>
   pickle_opens (snd (toggle_modal L n1 n2 is_open s w)) = pickle_opens w"
  by (simp add: toggle_modal_def)

lemma app_handle_frame:
  "ticker_list (app_handle L e w) = ticker_list w \<and>
   pickle_opens (app_handle L e w) = pickle_opens w"
  by (cases e) (simp_all add: app_graph_generator_frame home_def about_def)

lemma st2_handle_frame:
  "ticker_list (st2_handle L e w) = ticker_list w \<and>
   pickle_opens (st2_handle L e w) = pickle_opens w"
  by (cases e)
    (simp_all add: st2_graph_generator_frame toggle_modal_frame home_def about_def)

lemma app_run_frame:
  "ticker_list (app_run L es w) = ticker_list w \<and>
   pickle_opens (app_run L es w) = pickle_opens w"
proof (induction es arbitrary: w)
  case Nil
  show ?case by simp
next
  case (Cons e es)
  from Cons.IH [of "app_handle L e w"] app_handle_frame [of L e w]
  show ?case by simp
qed

lemma st2_run_frame:
  "ticker_list (st2_run L es w) = ticker_list w \<and>
   pickle_opens (st2_run L es w) = pickle_opens w"
proof (induction es arbitrary: w)
  case Nil
  show ?case by simp
next
  case (Cons e es)
  from Cons.IH [of "st2_handle L e w"] st2_handle_frame [of L e w]
  show ?case by simp
qed

text \<open>
  Claim C7. The ticker list is read once, at the start of the process, and no handler
  changes it: after any sequence of requests (plot callbacks, buy callbacks, the two
  routes) the ticker list is the one the process started with, and tickers.pickle
  has been opened once.
\<close>

theorem ticker_list_read_once:
  "ticker_list (app_run L es w) = ticker_list w \<and>
   pickle_opens (app_run L es w) = pickle_opens w \<and>
   ticker_list (st2_run L es' w) = ticker_list w \<and>
   pickle_opens (st2_run L es' w) = pickle_opens w \<and>
   (app_startup f r = Inr (w0, u0) \<longrightarrow>
      pickle_opens (app_run L es w0) = 1 \<and>
      ticker_list (app_run L es w0) = (case f of None \<Rightarrow> default_tickers | Some l \<Rightarrow> l)) \<and>
   (st2_startup f r = Inr (w1, u1) \<longrightarrow>
      pickle_opens (st2_run L es' w1) = 1 \<and>
      f = Some (ticker_list (st2_run L es' w1)))"
  using app_run_frame [of L es w] st2_run_frame [of L es' w]
    app_run_frame [of L es w0] st2_run_frame [of L es' w1]
    app_startup_Inr(1,3) [of f r w0 u0] st2_startup_Inr(1,2) [of f r w1 u1]
  by simp

theorem ticker_list_read_once_witness:
  "app_startup (Some [PStr ''IBM'']) 0 = Inr (fresh\<lparr>ticker_list := [PStr ''IBM'']\<rparr>, sample_ui_app) \<and>
   st2_startup (Some [PStr ''IBM'']) 0 = Inr (fresh\<lparr>ticker_list := [PStr ''IBM'']\<rparr>, sample_ui_st2) \<and>
   pickle_opens (app_run (sample_libs two_rows) sample_app_events
      (fresh\<lparr>ticker_list := [PStr ''IBM'']\<rparr>)) = 1 \<and>
   ticker_list (app_run (sample_libs two_rows) sample_app_events
      (fresh\<lparr>ticker_list := [PStr ''IBM'']\<rparr>)) = [PStr ''IBM''] \<and>
   pickle_opens (st2_run (sample_libs two_rows) sample_st2_events
      (fresh\<lparr>ticker_list := [PStr ''IBM'']\<rparr>)) = 1 \<and>
   ticker_list (st2_run (sample_libs two_rows) sample_st2_events
      (fresh\<lparr>ticker_list := [PStr ''IBM'']\<rparr>)) = [PStr ''IBM'']"
proof -
  have a: "app_startup (Some [PStr ''IBM'']) 0
      = Inr (fresh\<lparr>ticker_list := [PStr ''IBM'']\<rparr>, sample_ui_app)"
    by (simp add: app_startup_def choice_def fresh_def sample_ui_app_def)
  have s: "st2_startup (Some [PStr ''IBM'']) 0
      = Inr (fresh\<lparr>ticker_list := [PStr ''IBM'']\<rparr>, sample_ui_st2)"
    by (simp add: st2_startup_def choice_def fresh_def sample_ui_st2_def st2_start_tickers_def)
  from a s ticker_list_read_once
    [of "sample_libs two_rows" sample_app_events "fresh\<lparr>ticker_list := [PStr ''IBM'']\<rparr>"
      sample_st2_events "Some [PStr ''IBM'']" 0 "fresh\<lparr>ticker_list := [PStr ''IBM'']\<rparr>"
      sample_ui_app "fresh\<lparr>ticker_list := [PStr ''IBM'']\<rparr>" sample_ui_st2]
  show ?thesis by (simp add: fresh_def)
qed

section \<open>The scaled close column of st2.py\<close>

text \<open>
  Claim C8. In st2.py the close column is multiplied by 1.1 before any figure is
  built. Whenever the callback returns figures for a fetched frame \<open>df\<close>, the value of
  the live-price readout is 1.1 times the last fetched close and its reference 1.1
  times the one before; the line chart, the close of the candlestick and OHLC charts
  and the inputs of the moving averages are the fetched close column times 1.1.
\<close>

theorem st2_close_scaled:
  assumes "download L t (now - 5 * 365) now = Inr df"
      and "fst (st2_graph_generator L now n t c w) = Inr (fig, live)"
  shows "fig_traces live =
           [Indicator ''number+delta'' (last (df_close df) * (11 / 10)) ''$''
              (df_close df ! (length df - 2) * (11 / 10)) (t @ '' Live Price'')]
       \<and> (c = ''Line'' \<longrightarrow> fig_traces fig =
             [Scatter (df_index df) (map (\<lambda>x. Some (x * (11 / 10))) (df_close df)) ''close''
                [(''fill'', ''tozeroy'')]])
       \<and> (c = ''Candlestick'' \<longrightarrow> fig_traces fig =
             [Candlestick (df_index df) (df_open df) (df_high df) (df_low df)
                (map (\<lambda>x. x * (11 / 10)) (df_close df)) ''Candlestick''])
       \<and> (c = ''OHLC'' \<longrightarrow> fig_traces fig =
             [Ohlc (df_index df) (df_open df) (df_high df) (df_low df)
                (map (\<lambda>x. x * (11 / 10)) (df_close df))])
       \<and> (c = ''SMA'' \<longrightarrow> fig_traces fig =
             map (\<lambda>k. Scatter (df_index df)
                        (rolling_mean k (map (\<lambda>x. x * (11 / 10)) (df_close df)))
                        (dec k @ '' Days'') [])
               [10, 15, 30, 100])
       \<and> (c = ''EMA'' \<longrightarrow> fig_traces fig =
             map (\<lambda>k. Scatter (df_index df)
                        (ewm_mean k (map (\<lambda>x. x * (11 / 10)) (df_close df)))
                        (dec k @ '' Days'') [])
               [10, 15, 30, 100])"
proof -
  from st2_returns_needs [OF assms] have n: "1 \<le> n" and len: "2 \<le> length df" by simp_all
  note run = st2_run_ok [OF n assms(1) len, of c w]
  have days: "dec 10 = ''10''" "dec 15 = ''15''" "dec 30 = ''30''" "dec 100 = ''100''"
    by code_simp+
  obtain ts where ts: "st2_chart_traces L c (Some (scale_close df)) = Inr ts"
    and fig: "fig = Figure ts (st2_layout c)"
    and live: "live = Figure
              [Indicator ''number+delta'' (last (df_close df) * (11 / 10)) ''$''
                 (df_close df ! (length df - 2) * (11 / 10)) (t @ '' Live Price'')]
              st2_live_layout"
    using assms(2) unfolding run
    by (cases "st2_chart_traces L c (Some (scale_close df))") auto
  show ?thesis
  proof (intro conjI impI)
    show "fig_traces live =
           [Indicator ''number+delta'' (last (df_close df) * (11 / 10)) ''$''
              (df_close df ! (length df - 2) * (11 / 10)) (t @ '' Live Price'')]"
      by (simp add: live)
  next
    assume "c = ''Line''"
    with ts show "fig_traces fig =
             [Scatter (df_index df) (map (\<lambda>x. Some (x * (11 / 10))) (df_close df)) ''close''
                [(''fill'', ''tozeroy'')]]"
      by (auto simp: fig st2_chart_traces_def df_close_scale comp_def)
  next
    assume "c = ''Candlestick''"
    with ts show "fig_traces fig =
             [Candlestick (df_index df) (df_open df) (df_high df) (df_low df)
                (map (\<lambda>x. x * (11 / 10)) (df_close df)) ''Candlestick'']"
      by (auto simp: fig st2_chart_traces_def df_close_scale)
  next
    assume "c = ''OHLC''"
    with ts show "fig_traces fig =
             [Ohlc (df_index df) (df_open df) (df_high df) (df_low df)
                (map (\<lambda>x. x * (11 / 10)) (df_close df))]"
      by (auto simp: fig st2_chart_traces_def df_close_scale)
  next
    assume "c = ''SMA''"
    with ts show "fig_traces fig =
             map (\<lambda>k. Scatter (df_index df)
                        (rolling_mean k (map (\<lambda>x. x * (11 / 10)) (df_close df)))
                        (dec k @ '' Days'') [])
               [10, 15, 30, 100]"
      by (auto simp: fig st2_chart_traces_def df_close_scale days)
  next
    assume "c = ''EMA''"
    with ts show "fig_traces fig =
             map (\<lambda>k. Scatter (df_index df)
                        (ewm_mean k (map (\<lambda>x. x * (11 / 10)) (df_close df)))
                        (dec k @ '' Days'') [])
               [10, 15, 30, 100]"
      by (auto simp: fig st2_chart_traces_def df_close_scale days)
  qed
qed

theorem st2_close_scaled_witness:
  "download (sample_libs two_rows) ''AAPL'' (0 - 5 * 365) 0 = Inr two_rows \<and>
   (\<exists>fig live.
      fst (st2_graph_generator (sample_libs two_rows) 0 1 ''AAPL'' ''Line'' fresh)
        = Inr (fig, live) \<and>
      fig_traces live = [Indicator ''number+delta'' 121 ''$'' 110 ''AAPL Live Price''] \<and>
      fig_traces fig = [Scatter [1, 2] [Some 110, Some 121] ''close'' [(''fill'', ''tozeroy'')]])"
proof -
  have dl: "download (sample_libs two_rows) ''AAPL'' (0 - 5 * 365) 0 = Inr two_rows"
    by (simp add: sample_libs_def)
  have len: "2 \<le> length two_rows"
    by (simp add: two_rows_def)
  obtain fig live where
    run: "fst (st2_graph_generator (sample_libs two_rows) 0 1 ''AAPL'' ''Line'' fresh)
            = Inr (fig, live)"
    by (simp add: st2_run_ok [OF _ dl len] st2_chart_traces_def)
  have cols: "df_close two_rows = [100, 110]" "df_index two_rows = [1, 2]"
    "length two_rows = 2"
    by (simp_all add: two_rows_def sample_row_def df_close_def df_index_def)
  from st2_close_scaled [OF dl run] have
    "fig_traces live = [Indicator ''number+delta'' 121 ''$'' 110 ''AAPL Live Price'']"
    "fig_traces fig = [Scatter [1, 2] [Some 110, Some 121] ''close'' [(''fill'', ''tozeroy'')]]"
    by (simp_all add: cols)
  with dl run show ?thesis by blast
qed

section \<open>The plot callback before the first click\<close>

text \<open>
  Claim C9. In app.py, while the plot button has not been clicked (\<open>n_clicks = 0\<close>),
  \<open>graph_generator\<close> returns two empty figures and leaves the process as it was: no
  request goes to the data provider, and nothing is printed.
\<close>

theorem app_no_click_no_fetch:
  "app_graph_generator L now 0 ticker chart_name w = (Inr (EmptyDict, EmptyDict), w)"
  by (simp add: app_graph_generator_def)

section \<open>Where the plot callback of st2.py raises\<close>

text \<open>
  Claim C10. In st2.py \<open>graph_generator\<close> is partial. With \<open>n_clicks\<close> below 1 the
  dataframe is never assigned: the callback raises UnboundLocalError for every chart
  type, and for the chart types of the dropdown already in the charting branch. With
  a click and a fetched frame of fewer than two rows, the reference access
  \<^verbatim>\<open>df.close[-2]\<close> of the live-price figure raises IndexError, the live-price figure
  cannot be built, and the callback returns no figures; the exception it raises is
  that IndexError unless the MACD or RSI branch has raised before.
\<close>

theorem st2_graph_generator_partial:
  "(n < 1 \<longrightarrow>
      st2_graph_generator L now n t c w = (Inl UnboundLocalError, w) \<and>
      (c \<in> snd ` set st2_chart_options \<longrightarrow>
         st2_chart_traces L c None = Inl UnboundLocalError)) \<and>
   (1 \<le> n \<and> download L t (now - 5 * 365) now = Inr df \<and> length df < 2 \<longrightarrow>
      py_index (df_close (scale_close df)) (- 2) = Inl IndexError \<and>
      st2_live_price t (Some (scale_close df)) = Inl IndexError \<and>
      (\<exists>e. fst (st2_graph_generator L now n t c w) = Inl e) \<and>
      (c \<noteq> ''MACD'' \<and> c \<noteq> ''RSI'' \<longrightarrow>
         fst (st2_graph_generator L now n t c w) = Inl IndexError))"
proof (intro conjI impI)
  assume "n < 1"
  then show "st2_graph_generator L now n t c w = (Inl UnboundLocalError, w)"
    by (rule st2_unbound)
next
  assume "c \<in> snd ` set st2_chart_options"
  then show "st2_chart_traces L c None = Inl UnboundLocalError"
    by (rule st2_chart_unbound)
next
  assume a: "1 \<le> n \<and> download L t (now - 5 * 365) now = Inr df \<and> length df < 2"
  then show "py_index (df_close (scale_close df)) (- 2) = Inl IndexError"
    by (simp add: py_index_before_last)
  from a show "st2_live_price t (Some (scale_close df)) = Inl IndexError"
    by (simp add: st2_live_price_short)
  from a show "\<exists>e. fst (st2_graph_generator L now n t c w) = Inl e"
    by (blast intro: st2_short(1))
  assume "c \<noteq> ''MACD'' \<and> c \<noteq> ''RSI''"
  with a show "fst (st2_graph_generator L now n t c w) = Inl IndexError"
    by (blast intro: st2_short(2))
qed

theorem st2_graph_generator_partial_witness:
  "st2_graph_generator (sample_libs one_row) 0 0 ''AAPL'' ''Line'' fresh
     = (Inl UnboundLocalError, fresh) \<and>
   st2_chart_traces (sample_libs one_row) ''Line'' None = Inl UnboundLocalError \<and>
   download (sample_libs one_row) ''AAPL'' (0 - 5 * 365) 0 = Inr one_row \<and>
   length one_row < 2 \<and>
   py_index (df_close (scale_close one_row)) (- 2) = Inl IndexError \<and>
   st2_live_price ''AAPL'' (Some (scale_close one_row)) = Inl IndexError \<and>
   fst (st2_graph_generator (sample_libs one_row) 0 1 ''AAPL'' ''Line'' fresh) = Inl IndexError"
proof -
  have dl: "download (sample_libs one_row) ''AAPL'' (0 - 5 * 365) 0 = Inr one_row"
    by (simp add: sample_libs_def)
  have short: "length one_row < 2"
    by (simp add: one_row_def)
  have opt: "''Line'' \<in> snd ` set st2_chart_options"
    by (simp add: st2_chart_options_def)
  show ?thesis
    using dl short opt
      st2_graph_generator_partial
        [of 0 "sample_libs one_row" 0 "''AAPL''" "''Line''" fresh one_row]
      st2_graph_generator_partial
        [of 1 "sample_libs one_row" 0 "''AAPL''" "''Line''" fresh one_row]
    by simp
qed

end
